theory Spec2Isabelle
  imports Complex_Main "HOL-Library.AList"
begin

section \<open>JavaScript values as the client handles them\<close>

text \<open>
  The React components keep their form state, request payloads and parsed server
  responses as plain JavaScript values. Objects are association lists read with
  \<open>map_of\<close>; a property that is absent reads as \<open>undefined\<close>. Numbers are
  rationals, with \<open>NaN\<close> as a value of its own.
\<close>

datatype jsval =
    JUndefined
  | JNull
  | JBool bool
  | JNum rat
  | JNaN
  | JStr string
  | JArr "jsval list"
  | JObj "(string \<times> jsval) list"

text \<open>Truthiness, as \<open>||\<close>, \<open>&&\<close>, \<open>!\<close> and \<open>? :\<close> test it.\<close>

fun truthy :: "jsval \<Rightarrow> bool" where
  "truthy JUndefined = False"
| "truthy JNull = False"
| "truthy (JBool b) = b"
| "truthy (JNum n) = (n \<noteq> 0)"
| "truthy JNaN = False"
| "truthy (JStr s) = (s \<noteq> [])"
| "truthy (JArr xs) = True"
| "truthy (JObj kvs) = True"

text \<open>\<open>a || b\<close>\<close>

definition js_or :: "jsval \<Rightarrow> jsval \<Rightarrow> jsval" where
  "js_or a b = (if truthy a then a else b)"

text \<open>
  \<open>o?.k\<close> and \<open>o.k\<close> for the property names the components read (\<open>data\<close>,
  \<open>session_id\<close>, \<open>pagination\<close>, \<open>full_path\<close>, the fields of a rule, ...): none of
  them is an index, \<open>length\<close> or a property of a prototype, so the access reads
  \<open>undefined\<close> from anything but an object that holds the key. (\<open>o.k\<close> throws on
  \<open>undefined\<close> and \<open>null\<close>; a handler that can meet this has the throw as a
  branch of its own.)
\<close>

fun get :: "jsval \<Rightarrow> string \<Rightarrow> jsval" where
  "get (JObj kvs) k = (case map_of kvs k of None \<Rightarrow> JUndefined | Some v \<Rightarrow> v)"
| "get _ k = JUndefined"

text \<open>
  \<open>{...o, k: v}\<close>: the own enumerable properties of \<open>o\<close>, with \<open>k\<close> set.
  An array spreads to its elements under the keys \<open>"0"\<close>, \<open>"1"\<close>, ..., a string to its
  characters likewise; \<open>undefined\<close>, \<open>null\<close>, booleans and numbers spread to nothing.
\<close>

fun string_of_nat :: "nat \<Rightarrow> string" where
  "string_of_nat n =
     (if n < 10 then [char_of (48 + n)]
      else string_of_nat (n div 10) @ [char_of (48 + n mod 10)])"

declare string_of_nat.simps [simp del]

fun own_props :: "jsval \<Rightarrow> (string \<times> jsval) list" where
  "own_props (JObj kvs) = kvs"
| "own_props (JArr xs) = zip (map string_of_nat [0..<length xs]) xs"
| "own_props (JStr s) = zip (map string_of_nat [0..<length s]) (map (\<lambda>c. JStr [c]) s)"
| "own_props _ = []"

definition spread_set :: "jsval \<Rightarrow> string \<Rightarrow> jsval \<Rightarrow> jsval" where
  "spread_set ob k v = JObj (AList.update k v (own_props ob))"

section \<open>BusinessResults: the rule form\<close>

text \<open>
  \<open>INITIAL_RULE_STATE\<close> of \<open>BusinessResults.jsx\<close>, the state of the rule form before
  the user touches it.
\<close>

definition INITIAL_RULE_STATE :: jsval where
  "INITIAL_RULE_STATE = JObj
     [(''rule_name'', JStr []),
      (''description'', JStr []),
      (''rule_type'', JStr ''mandatory''),
      (''severity'', JStr ''medium''),
      (''source_column'', JStr []),
      (''threshold_value'', JStr []),
      (''operator'', JStr []),
      (''target_column'', JStr []),
      (''pattern_type'', JStr []),
      (''min_value'', JStr []),
      (''max_value'', JStr []),
      (''custom_pattern'', JStr []),
      (''operator_type'', JStr []),
      (''comparison_type'', JStr ''exact''),
      (''is_case_sensitive'', JStr ''n''),
      (''rule_logic'', JStr [])]"

text \<open>
  Every input of the form stores its value with
  \<open>setNewRule({ ...newRule, field: e.target.value })\<close>.
\<close>

definition setField :: "jsval \<Rightarrow> string \<times> jsval \<Rightarrow> jsval" where
  "setField newRule kv = spread_set newRule (fst kv) (snd kv)"

text \<open>
  The payload \<open>handleSaveRule\<close> sends when the form is submitted, for creating a rule
  and for updating one alike. \<open>parseFloat\<close> is the JavaScript function of that name.
  Properties whose value is \<open>undefined\<close> are deleted before the payload is sent.
\<close>

definition handleSaveRule_payload :: "(jsval \<Rightarrow> jsval) \<Rightarrow> jsval \<Rightarrow> jsval" where
  "handleSaveRule_payload parseFloat newRule = JObj (filter (\<lambda>kv. snd kv \<noteq> JUndefined)
     [(''rule_name'', get newRule ''rule_name''),
      (''rule_type'', get newRule ''rule_type''),
      (''source_column'', js_or (get newRule ''source_column'') JNull),
      (''target_column'', js_or (get newRule ''target_column'') JNull),
      (''threshold_value'',
         if get newRule ''threshold_value'' \<noteq> JStr []
         then parseFloat (get newRule ''threshold_value'') else JNull),
      (''operator'', js_or (get newRule ''operator'') JNull),
      (''pattern_type'', js_or (get newRule ''pattern_type'') JNull),
      (''min_value'',
         if get newRule ''min_value'' \<noteq> JStr []
         then parseFloat (get newRule ''min_value'') else JNull),
      (''max_value'',
         if get newRule ''max_value'' \<noteq> JStr []
         then parseFloat (get newRule ''max_value'') else JNull),
      (''custom_pattern'', js_or (get newRule ''custom_pattern'') JNull),
      (''operator_type'', js_or (get newRule ''operator_type'') JNull),
      (''comparison_type'', js_or (get newRule ''comparison_type'') (JStr ''exact'')),
      (''description'', js_or (get newRule ''description'') JNull),
      (''severity'', get newRule ''severity''),
      (''is_active'', JNum 1),
      (''created_by'', JStr ''web_user''),
      (''case_sensitive'',
         if get newRule ''is_case_sensitive'' = JStr ''y'' then JNum 1 else JNum 0),
      (''rule_logic'', js_or (get newRule ''rule_logic'') JNull)])"

section \<open>Exceptions and fetch\<close>

text \<open>
  A handler that throws is a function into \<open>js_error + 'a\<close>. \<open>Error v\<close> is
  \<open>new Error(v)\<close>, whose message is \<open>v\<close> as a string; the messages of the
  engine's own \<open>TypeError\<close> (a property read
  from \<open>undefined\<close> or \<open>null\<close>, a call of something that is no function, a
  failed \<open>fetch\<close>) and \<open>SyntaxError\<close> (a body that is no JSON) are not modelled.
\<close>

datatype js_error = Error jsval | TypeError | SyntaxError

definition bindE :: "js_error + 'a \<Rightarrow> ('a \<Rightarrow> js_error + 'b) \<Rightarrow> js_error + 'b" where
  "bindE m f = (case m of Inl e \<Rightarrow> Inl e | Inr a \<Rightarrow> f a)"

text \<open>\<open>o.k\<close>, which throws when \<open>o\<close> is \<open>undefined\<close> or \<open>null\<close>.\<close>

fun read_prop :: "jsval \<Rightarrow> string \<Rightarrow> js_error + jsval" where
  "read_prop JUndefined k = Inl TypeError"
| "read_prop JNull k = Inl TypeError"
| "read_prop ob k = Inr (get ob k)"

text \<open>
  What \<open>await fetch(...)\<close> gives: the promise rejects, or there is a response with
  its \<open>ok\<close> flag and its body, \<open>None\<close> when the body is not JSON (\<open>r.json()\<close>
  rejects then).
\<close>

datatype http_response = NetworkFailure | Response bool "jsval option"

fun json :: "jsval option \<Rightarrow> js_error + jsval" where
  "json None = Inl SyntaxError"
| "json (Some j) = Inr j"

text \<open>
  \<open>s.toLowerCase()\<close>, on the ASCII letters (the strings lowered by the components are
  the source names \<open>CSV\<close>, \<open>Excel\<close>, \<open>Database\<close> and the database types).
\<close>

definition lower_char :: "char \<Rightarrow> char" where
  "lower_char c = (let n = (of_char c :: nat) in if 65 \<le> n \<and> n \<le> 90 then char_of (n + 32) else c)"

fun toLowerCase :: "jsval \<Rightarrow> js_error + jsval" where
  "toLowerCase (JStr s) = Inr (JStr (map lower_char s))"
| "toLowerCase _ = Inl TypeError"

text \<open>\<open>v?.toLowerCase()\<close>\<close>

fun opt_toLowerCase :: "jsval \<Rightarrow> js_error + jsval" where
  "opt_toLowerCase JUndefined = Inr JUndefined"
| "opt_toLowerCase JNull = Inr JUndefined"
| "opt_toLowerCase v = toLowerCase v"

section \<open>DataCheckOption: uploading the files and building the analysis request\<close>

text \<open>\<open>s.replace(/\\/g, '/')\<close>: every backslash becomes a forward slash.\<close>

definition replace_backslashes :: "string \<Rightarrow> string" where
  "replace_backslashes s = map (\<lambda>c. if c = CHR 0x5C then CHR ''/'' else c) s"

text \<open>\<open>j.full_path ? j.full_path.replace(/\\/g, '/') : null\<close>, given \<open>j.full_path\<close>.\<close>

fun forward_slashes :: "jsval \<Rightarrow> js_error + jsval" where
  "forward_slashes (JStr s) = Inr (if s = [] then JNull else JStr (replace_backslashes s))"
| "forward_slashes v = (if truthy v then Inl TypeError else Inr JNull)"

text \<open>
  The helper \<open>upload(file, isTarget)\<close> of \<open>handleRunAnalysis\<close>. The first component
  is what it passed to \<open>updateFormData\<close> before it returned or threw, the second its
  result. \<open>r\<close> is the answer of \<open>POST /api/upload\<close>, which is only sent when there is
  a file.
\<close>

definition upload :: "jsval \<Rightarrow> bool \<Rightarrow> http_response \<Rightarrow> (string \<times> jsval) list \<times> (js_error + jsval)" where
  "upload file isTarget r =
     (if \<not> truthy file then ([], Inr JNull)
      else case r of
          NetworkFailure \<Rightarrow> ([], Inl TypeError)
        | Response ok body \<Rightarrow>
            if \<not> ok
            then ([], Inl (Error (JStr (''Upload failed for '' @ (if isTarget then ''Target'' else ''Source'')))))
            else (case bindE (json body) (\<lambda>j. bindE (read_prop j ''filename'') (\<lambda>fname. Inr (j, fname))) of
                Inl e \<Rightarrow> ([], Inl e)
              | Inr (j, fname) \<Rightarrow>
                  ([(if isTarget then ''targetFileName'' else ''sourceFileName'', fname)],
                   forward_slashes (get j ''full_path''))))"

text \<open>The endpoint a check type is posted to.\<close>

definition API_ENDPOINTS :: jsval where
  "API_ENDPOINTS = JObj
     [(''SINGLE_SOURCE_ANALYSIS'', JStr ''/api/check-single''),
      (''SOURCE_TARGET_COMPARISON'', JStr ''/api/compare''),
      (''ADVANCED_DATA_CHECKS'', JStr ''/api/advanced''),
      (''BUSINESS_RULES_ENGINE'', JStr ''/api/rules'')]"

text \<open>
  The payload of a single-source analysis (basic or advanced). \<open>parseInt\<close> is the
  JavaScript function of that name.
\<close>

definition single_payload :: "(jsval \<Rightarrow> jsval) \<Rightarrow> string \<Rightarrow> jsval \<Rightarrow> jsval \<Rightarrow> jsval \<Rightarrow> js_error + jsval" where
  "single_payload parseInt typ formData dbConnection sPath =
     (let selectedSource = get formData ''selectedSource'' in
      bindE (toLowerCase selectedSource) (\<lambda>source_type.
      bindE
        (if selectedSource = JStr ''Database''
         then bindE (read_prop dbConnection ''dbType'') (\<lambda>dbType.
              bindE (opt_toLowerCase dbType) (\<lambda>db_type. Inr
                [(''db_type'', db_type),
                 (''host'', get dbConnection ''host''),
                 (''port'', parseInt (get dbConnection ''port'')),
                 (''user'', get dbConnection ''user''),
                 (''password'', get dbConnection ''password''),
                 (''database'', get dbConnection ''database''),
                 (''schema'', get dbConnection ''schema''),
                 (''table'', get dbConnection ''table'')]))
         else Inr
                [(''file_path'', sPath),
                 (''sheet_name'', js_or (get formData ''sourceSheetName'') JNull),
                 (''mandatory_fields'', JStr ''all'')])
        (\<lambda>rest. Inr (JObj
           ([(''analysis_type'', JStr (if typ = ''ADVANCED_DATA_CHECKS'' then ''advanced'' else ''basic'')),
             (''source_type'', source_type)] @ rest)))))"

text \<open>
  One side (\<open>source\<close> or \<open>target\<close>) of the comparison payload: \<open>src\<close> is the
  side's source kind, \<open>conn\<close> its database connection, \<open>defaultPort\<close> the port used
  when \<open>parseInt\<close> gives a falsy value (3306 for the source, 5432 for the target),
  \<open>pathKey\<close> and \<open>path\<close> the key and the uploaded path of a file side.
\<close>

definition comparison_side :: "(jsval \<Rightarrow> jsval) \<Rightarrow> rat \<Rightarrow> jsval \<Rightarrow> jsval \<Rightarrow> string \<Rightarrow> jsval \<Rightarrow> js_error + jsval" where
  "comparison_side parseInt defaultPort src conn pathKey path =
     bindE (toLowerCase src) (\<lambda>source_type.
     bindE
       (if src = JStr ''Database''
        then bindE (read_prop conn ''dbType'') (\<lambda>dbType.
             bindE (opt_toLowerCase dbType) (\<lambda>db_type. Inr
               ([(''db_type'', db_type),
                 (''host'', get conn ''host''),
                 (''port'', js_or (parseInt (get conn ''port'')) (JNum defaultPort)),
                 (''database'', get conn ''database''),
                 (''schema'', get conn ''schema''),
                 (''table'', get conn ''table''),
                 (''user'', get conn ''user''),
                 (''password'', get conn ''password'')]
                @ (if dbType = JStr ''Oracle''
                   then [(''service_name'', get conn ''serviceName'')] else []))))
        else Inr [(pathKey, path)])
       (\<lambda>rest. Inr (JObj ((''source_type'', source_type) # rest))))"

definition comparison_payload :: "(jsval \<Rightarrow> jsval) \<Rightarrow> jsval \<Rightarrow> jsval \<Rightarrow> jsval \<Rightarrow> js_error + jsval" where
  "comparison_payload parseInt formData sPath tPath =
     bindE (comparison_side parseInt 3306 (get formData ''selectedSource'')
              (get formData ''dbConnection'') ''source_file_path'' sPath) (\<lambda>source.
     bindE (comparison_side parseInt 5432 (get formData ''targetSource'')
              (get formData ''targetDbConnection'') ''target_file_path'' tPath) (\<lambda>target.
     Inr (JObj [(''source'', source), (''target'', target), (''selected_columns'', JStr ''all'')])))"

text \<open>
  \<open>handleRunAnalysis\<close> up to the request it sends: both uploads, then either the
  short-circuit of the business rules engine, which stores the analysis result
  \<open>Workflow res\<close> and sends nothing, or \<open>Post endpoint payload\<close>. The first component
  collects what was passed to \<open>updateFormData\<close>; an \<open>Inl\<close> is the exception the
  handler's \<open>catch\<close> receives. \<open>rS\<close> and \<open>rT\<close> answer the two uploads.
\<close>

datatype run_step = Workflow jsval | Post jsval jsval

definition handleRunAnalysis_request ::
  "(jsval \<Rightarrow> jsval) \<Rightarrow> string \<Rightarrow> jsval \<Rightarrow> http_response \<Rightarrow> http_response
     \<Rightarrow> (string \<times> jsval) list \<times> (js_error + run_step)" where
  "handleRunAnalysis_request parseInt typ formData rS rT =
     (case upload (get formData ''selectedFile'') False rS of
        (u1, Inl e) \<Rightarrow> (u1, Inl e)
      | (u1, Inr sPath) \<Rightarrow>
          (case upload (get formData ''targetFile'') True rT of
             (u2, Inl e) \<Rightarrow> (u1 @ u2, Inl e)
           | (u2, Inr tPath) \<Rightarrow>
               (u1 @ u2,
                if typ = ''BUSINESS_RULES_ENGINE''
                then Inr (Workflow (JObj
                       [(''isReadyForWorkflow'', JBool True),
                        (''filepath'', sPath),
                        (''sourceType'', get formData ''selectedSource''),
                        (''dbConnection'', get formData ''dbConnection'')]))
                else bindE
                       (if typ \<noteq> ''SOURCE_TARGET_COMPARISON''
                        then single_payload parseInt typ formData (get formData ''dbConnection'') sPath
                        else comparison_payload parseInt formData sPath tPath)
                       (\<lambda>payload. Inr (Post (get API_ENDPOINTS typ) payload)))))"

section \<open>AnalysisResults: paging through the errors of a single-source check\<close>

text \<open>
  The component's state. The counts of the \<open>pagination\<close> object are integers (the
  server sends them as JSON numbers); the fields carry the prefix \<open>ar_\<close> here.
  Initially the tab is \<open>nulls\<close>, the table is empty and the pagination is
  \<open>{page: 1, pageSize: 50, totalPages: 1, totalItems: 0}\<close>.
\<close>

record ar_pagination =
  ar_page :: int
  ar_pageSize :: int
  ar_totalPages :: int
  ar_totalItems :: int

record ar_state =
  ar_activeTab :: string
  ar_tableData :: jsval
  ar_loading :: bool
  ar_pagination :: ar_pagination

definition ar_initial :: ar_state where
  "ar_initial =
     \<lparr>ar_activeTab = ''nulls'', ar_tableData = JArr [], ar_loading = False,
      ar_pagination = \<lparr>ar_page = 1, ar_pageSize = 50, ar_totalPages = 1, ar_totalItems = 0\<rparr>\<rparr>"

definition tabToErrorType :: jsval where
  "tabToErrorType = JObj
     [(''nulls'', JStr ''null''), (''duplicates'', JStr ''duplicate''), (''format'', JStr ''format'')]"

definition handleTabChange :: "string \<Rightarrow> ar_state \<Rightarrow> ar_state" where
  "handleTabChange tab st =
     st\<lparr>ar_activeTab := tab, ar_pagination := (ar_pagination st)\<lparr>ar_page := 1\<rparr>\<rparr>"

definition handlePageChange :: "int \<Rightarrow> ar_state \<Rightarrow> ar_state" where
  "handlePageChange newPage st =
     (if newPage \<ge> 1 \<and> newPage \<le> ar_totalPages (ar_pagination st)
      then st\<lparr>ar_pagination := (ar_pagination st)\<lparr>ar_page := newPage\<rparr>\<rparr>
      else st)"

text \<open>
  The effect that runs when the session, the tab or the page changes. It sets
  \<open>loading\<close> and requests
  \<open>/api/single/<session>/errors?page=..&page_size=..&error_type=..\<close>.
\<close>

record errors_request =
  rq_page :: int
  rq_page_size :: int
  rq_error_type :: jsval

definition fetchData_request :: "ar_state \<Rightarrow> errors_request" where
  "fetchData_request st =
     \<lparr>rq_page = ar_page (ar_pagination st),
      rq_page_size = ar_pageSize (ar_pagination st),
      rq_error_type = get tabToErrorType (ar_activeTab st)\<rparr>"

definition fetchData_start :: "ar_state \<Rightarrow> ar_state" where
  "fetchData_start st = st\<lparr>ar_loading := True\<rparr>"

text \<open>
  What comes back: the request or the reading of the body throws (\<open>ErrorsThrow\<close>),
  the response is not \<open>ok\<close>, or it is \<open>ok\<close> with \<open>result.data.errors\<close> and,
  when \<open>result.data.pagination\<close> is there, its \<open>total_pages\<close> and
  \<open>total_errors\<close>.
\<close>

datatype errors_response =
    ErrorsThrow
  | ErrorsNotOk
  | ErrorsOk jsval "(int \<times> int) option"

fun fetchData_done :: "errors_response \<Rightarrow> ar_state \<Rightarrow> ar_state" where
  "fetchData_done ErrorsThrow st = st\<lparr>ar_loading := False\<rparr>"
| "fetchData_done ErrorsNotOk st = st\<lparr>ar_tableData := JArr [], ar_loading := False\<rparr>"
| "fetchData_done (ErrorsOk errors None) st =
     st\<lparr>ar_tableData := js_or errors (JArr []), ar_loading := False\<rparr>"
| "fetchData_done (ErrorsOk errors (Some (total_pages, total_errors))) st =
     st\<lparr>ar_tableData := js_or errors (JArr []), ar_loading := False,
        ar_pagination := (ar_pagination st)\<lparr>ar_totalPages := total_pages, ar_totalItems := total_errors\<rparr>\<rparr>"

text \<open>The \<open>disabled\<close> attributes of the Previous and Next buttons, and their clicks.\<close>

definition ar_prev_disabled :: "ar_state \<Rightarrow> bool" where
  "ar_prev_disabled st = (ar_page (ar_pagination st) = 1 \<or> ar_loading st)"

definition ar_next_disabled :: "ar_state \<Rightarrow> bool" where
  "ar_next_disabled st = (ar_page (ar_pagination st) \<ge> ar_totalPages (ar_pagination st) \<or> ar_loading st)"

text \<open>What can happen to the component, one event at a time.\<close>

datatype ar_event =
    TabChange string
  | PageChange int
  | ClickPrevious
  | ClickNext
  | FetchStart
  | FetchDone errors_response

fun ar_step :: "ar_state \<Rightarrow> ar_event \<Rightarrow> ar_state" where
  "ar_step st (TabChange tab) = handleTabChange tab st"
| "ar_step st (PageChange n) = handlePageChange n st"
| "ar_step st ClickPrevious =
     (if ar_prev_disabled st then st else handlePageChange (ar_page (ar_pagination st) - 1) st)"
| "ar_step st ClickNext =
     (if ar_next_disabled st then st else handlePageChange (ar_page (ar_pagination st) + 1) st)"
| "ar_step st FetchStart = fetchData_start st"
| "ar_step st (FetchDone r) = fetchData_done r st"

definition ar_in_range :: "ar_state \<Rightarrow> bool" where
  "ar_in_range st = (1 \<le> ar_page (ar_pagination st) \<and> ar_page (ar_pagination st) \<le> ar_totalPages (ar_pagination st))"

text \<open>
  A response is consistent with the state it reaches when the \<open>total_pages\<close> it
  reports, if any, is not below the page on display.
\<close>

fun ar_consistent :: "ar_state \<Rightarrow> ar_event \<Rightarrow> bool" where
  "ar_consistent st (FetchDone (ErrorsOk errors (Some (total_pages, total_errors)))) =
     (ar_page (ar_pagination st) \<le> total_pages)"
| "ar_consistent st _ = True"

fun ar_consistent_run :: "ar_state \<Rightarrow> ar_event list \<Rightarrow> bool" where
  "ar_consistent_run st [] = True"
| "ar_consistent_run st (e # es) = (ar_consistent st e \<and> ar_consistent_run (ar_step st e) es)"

section \<open>BusinessResults: executing rules and paging through the violations\<close>

text \<open>
  The part of the component's state the handlers below touch. The counts of the
  \<open>pagination\<close> object are integers, as above; the fields carry the prefix \<open>br_\<close>.
  A notification is \<open>Notice type message\<close>, or \<open>Caught e\<close> for the error notice
  whose message is taken from the exception \<open>e\<close> (the timer that clears a
  notification after three seconds is not modelled).
\<close>

record br_pagination =
  br_page :: int
  br_pageSize :: int
  br_total :: int
  br_totalPages :: int

datatype notice = Notice string string | Caught js_error

record br_state =
  br_step :: string
  br_loading :: bool
  br_notification :: "notice option"
  br_availableRules :: "jsval list"
  br_executionResult :: jsval
  br_pagination :: br_pagination

definition br_initial :: br_state where
  "br_initial =
     \<lparr>br_step = ''CHOICE'', br_loading = False, br_notification = None,
      br_availableRules = [], br_executionResult = JNull,
      br_pagination = \<lparr>br_page = 1, br_pageSize = 50, br_total = 0, br_totalPages = 1\<rparr>\<rparr>"

text \<open>
  \<open>fetchViolations(page, sessionIdOverride)\<close>, first half: without a session id it
  returns at once; otherwise it sets \<open>loading\<close> and requests
  \<open>/api/rules/violations/<session>?page=..&page_size=..\<close>.
\<close>

record violations_request =
  vr_session :: jsval
  vr_page :: int
  vr_page_size :: int

definition fetchViolations_start :: "int \<Rightarrow> jsval \<Rightarrow> br_state \<Rightarrow> br_state \<times> violations_request option" where
  "fetchViolations_start pg sessionIdOverride st =
     (let currentSessionId = js_or sessionIdOverride (get (br_executionResult st) ''session_id'') in
      if \<not> truthy currentSessionId then (st, None)
      else (st\<lparr>br_loading := True\<rparr>,
            Some \<lparr>vr_session = currentSessionId, vr_page = pg,
                  vr_page_size = br_pageSize (br_pagination st)\<rparr>))"

text \<open>
  Second half, on the answer: the request or the reading of the body throws, the
  response is not \<open>ok\<close>, or it is \<open>ok\<close> with \<open>data.data\<close> and, when
  \<open>data.pagination\<close> is there, its \<open>page\<close>, \<open>page_size\<close>, \<open>total\<close> and
  \<open>total_pages\<close>.
\<close>

datatype violations_response =
    ViolationsThrow
  | ViolationsNotOk
  | ViolationsOk jsval "br_pagination option"

fun fetchViolations_done :: "violations_response \<Rightarrow> br_state \<Rightarrow> br_state" where
  "fetchViolations_done ViolationsThrow st =
     st\<lparr>br_notification := Some (Notice ''error'' ''Network error fetching page''), br_loading := False\<rparr>"
| "fetchViolations_done ViolationsNotOk st =
     st\<lparr>br_notification := Some (Notice ''error'' ''Failed to fetch violations page''), br_loading := False\<rparr>"
| "fetchViolations_done (ViolationsOk d pag) st =
     st\<lparr>br_executionResult := spread_set (br_executionResult st) ''violations'' (js_or d (JArr [])),
        br_pagination := (case pag of None \<Rightarrow> br_pagination st | Some p \<Rightarrow> p),
        br_loading := False\<rparr>"

text \<open>
  \<open>updateFormData(data)\<close> of DataQualityCheck: the form data of the selected check
  with the properties of \<open>data\<close> set (\<open>{ ...prev[selectedOption], ...data }\<close>).
\<close>

definition updateFormData :: "jsval \<Rightarrow> (string \<times> jsval) list \<Rightarrow> jsval" where
  "updateFormData formData patch = foldl (\<lambda>ob kv. spread_set ob (fst kv) (snd kv)) formData patch"

text \<open>
  The payload \<open>handleExecuteRules\<close> posts to \<open>/api/rules/execute\<close>, from the props
  \<open>analysisResult\<close> and \<open>formData\<close> of the component and the selected rule ids.
  \<open>filePath\<close>, \<open>sourceType\<close> and \<open>columns\<close> are computed when the component
  renders: \<open>analysisResult?.filepath || ''\<close>,
  \<open>formData?.selectedSource?.toLowerCase() || 'csv'\<close> and
  \<open>analysisResult?.columns || []\<close>. For a database source with a connection the
  connection's configuration is added three times: as \<open>db_config\<close>, as
  \<open>source.db_config\<close> and flattened into the payload.
\<close>

definition handleExecuteRules_payload ::
  "(jsval \<Rightarrow> jsval) \<Rightarrow> jsval \<Rightarrow> jsval \<Rightarrow> jsval list \<Rightarrow> js_error + jsval" where
  "handleExecuteRules_payload parseInt analysisResult formData selectedRuleIds =
     (let filePath = js_or (get analysisResult ''filepath'') (JStr []);
          columns = js_or (get analysisResult ''columns'') (JArr [])
      in bindE (opt_toLowerCase (get formData ''selectedSource'')) (\<lambda>lowered.
         let sourceType = js_or lowered (JStr ''csv'');
             dbConnection = get formData ''dbConnection'';
             base = [(''rule_ids'', JArr selectedRuleIds),
                     (''source_type'', sourceType),
                     (''file_path'', filePath),
                     (''mandatory_fields'', columns)];
             source = [(''source_type'', sourceType), (''file_path'', filePath)]
         in if sourceType = JStr ''database'' \<and> truthy dbConnection
            then bindE (opt_toLowerCase (get dbConnection ''dbType'')) (\<lambda>dbType.
                 let dbConfig =
                       [(''db_type'', js_or dbType (JStr ''mysql'')),
                        (''host'', get dbConnection ''host''),
                        (''port'', js_or (parseInt (get dbConnection ''port'')) (JNum 3306)),
                        (''database'', get dbConnection ''database''),
                        (''table'', get dbConnection ''table''),
                        (''user'', get dbConnection ''user''),
                        (''password'', get dbConnection ''password'')]
                 in Inr (JObj (base
                      @ [(''source'', JObj (source @ [(''db_config'', JObj dbConfig)])),
                         (''db_config'', JObj dbConfig)]
                      @ dbConfig)))
            else Inr (JObj (base @ [(''source'', JObj source)]))))"

text \<open>
  \<open>handleExecuteRules\<close> from the answer of \<open>POST /api/rules/execute\<close> on: the new
  state and the violations request it goes on to send, if any. Whatever is thrown
  ends in the \<open>catch\<close>, which shows an error notice; \<open>finally\<close> clears \<open>loading\<close>
  (after the violations request, when there is one, has been awaited).
\<close>

definition handleExecuteRules_response :: "http_response \<Rightarrow> br_state \<Rightarrow> br_state \<times> violations_request option" where
  "handleExecuteRules_response res st =
     (case (case res of
              NetworkFailure \<Rightarrow> Inl TypeError
            | Response ok body \<Rightarrow>
                bindE (json body) (\<lambda>data.
                if \<not> ok
                then bindE (read_prop data ''message'') (\<lambda>m. Inl (Error (js_or m (JStr ''Execution failed''))))
                else bindE (read_prop data ''data'') (\<lambda>d. Inr (data, js_or d data)))) of
        Inl e \<Rightarrow> (st\<lparr>br_notification := Some (Caught e), br_loading := False\<rparr>, None)
      | Inr (data, finalResult) \<Rightarrow>
          (let session_id = js_or (get data ''session_id'') (get finalResult ''session_id'');
               st1 = st\<lparr>br_executionResult :=
                          spread_set (spread_set finalResult ''session_id'' session_id) ''violations'' (JArr []),
                        br_step := ''REPORT''\<rparr>
           in if truthy session_id then fetchViolations_start 1 session_id st1
              else (st1\<lparr>br_loading := False\<rparr>, None)))"

text \<open>
  The pagination controls of the report: shown when there is more than one page,
  with the \<open>disabled\<close> attributes of Previous and Next, and the page a click asks
  \<open>fetchViolations\<close> for.
\<close>

definition br_controls_shown :: "br_state \<Rightarrow> bool" where
  "br_controls_shown st = (br_totalPages (br_pagination st) > 1)"

definition br_prev_disabled :: "br_state \<Rightarrow> bool" where
  "br_prev_disabled st = (br_page (br_pagination st) = 1 \<or> br_loading st)"

definition br_next_disabled :: "br_state \<Rightarrow> bool" where
  "br_next_disabled st = (br_page (br_pagination st) = br_totalPages (br_pagination st) \<or> br_loading st)"

definition br_click_previous :: "br_state \<Rightarrow> br_state \<times> violations_request option" where
  "br_click_previous st =
     (if br_controls_shown st \<and> \<not> br_prev_disabled st
      then fetchViolations_start (br_page (br_pagination st) - 1) JNull st
      else (st, None))"

definition br_click_next :: "br_state \<Rightarrow> br_state \<times> violations_request option" where
  "br_click_next st =
     (if br_controls_shown st \<and> \<not> br_next_disabled st
      then fetchViolations_start (br_page (br_pagination st) + 1) JNull st
      else (st, None))"

definition br_in_range :: "br_state \<Rightarrow> bool" where
  "br_in_range st = (1 \<le> br_page (br_pagination st) \<and> br_page (br_pagination st) \<le> br_totalPages (br_pagination st))"

text \<open>
  \<open>handleDeleteRule(e, id)\<close>. Once the user has confirmed, it sends one request,
  \<open>PUT /api/rules/<id>\<close> with the body \<open>{is_active: 0}\<close>. When the response is
  \<open>ok\<close>, the rule is filtered out of the list of active rules on display
  (\<open>r.rule_id !== id\<close>; rule ids are numbers or strings, compared by value).
\<close>

record rule_request =
  rr_method :: string
  rr_path :: string
  rr_id :: jsval
  rr_body :: jsval

definition handleDeleteRule_request :: "bool \<Rightarrow> jsval \<Rightarrow> rule_request option" where
  "handleDeleteRule_request confirmed ident =
     (if \<not> confirmed then None
      else Some \<lparr>rr_method = ''PUT'', rr_path = ''/api/rules'', rr_id = ident,
                 rr_body = JObj [(''is_active'', JNum 0)]\<rparr>)"

definition strict_eq :: "jsval \<Rightarrow> jsval \<Rightarrow> bool" where
  "strict_eq a b = (a = b \<and> a \<noteq> JNaN)"

fun handleDeleteRule_response :: "http_response \<Rightarrow> jsval \<Rightarrow> br_state \<Rightarrow> br_state" where
  "handleDeleteRule_response NetworkFailure ident st =
     st\<lparr>br_notification := Some (Notice ''error'' ''Deactivation failed'')\<rparr>"
| "handleDeleteRule_response (Response ok body) ident st =
     (if ok
      then st\<lparr>br_availableRules := filter (\<lambda>r. \<not> strict_eq (get r ''rule_id'') ident) (br_availableRules st),
              br_notification := Some (Notice ''success'' ''Rule deactivated'')\<rparr>
      else st)"

text \<open>
  The requests of a run of AnalysisResults: each \<open>FetchStart\<close> asks for the page of
  the state it starts from, which is in range when it lies between 1 and that
  state's \<open>totalPages\<close>.
\<close>

fun ar_requests_in_range :: "ar_state \<Rightarrow> ar_event list \<Rightarrow> bool" where
  "ar_requests_in_range st [] = True"
| "ar_requests_in_range st (FetchStart # es) =
     (1 \<le> rq_page (fetchData_request st) \<and>
      rq_page (fetchData_request st) \<le> ar_totalPages (ar_pagination st) \<and>
      ar_requests_in_range (ar_step st FetchStart) es)"
| "ar_requests_in_range st (e # es) = ar_requests_in_range (ar_step st e) es"

text \<open>
  What can happen to the report of BusinessResults, one event at a time, with the
  violations request each event sends, if any.
\<close>

datatype br_event =
    ExecuteDone http_response
  | ReportPrevious
  | ReportNext
  | ViolationsDone violations_response

fun br_do :: "br_state \<Rightarrow> br_event \<Rightarrow> br_state \<times> violations_request option" where
  "br_do st (ExecuteDone res) = handleExecuteRules_response res st"
| "br_do st ReportPrevious = br_click_previous st"
| "br_do st ReportNext = br_click_next st"
| "br_do st (ViolationsDone r) = (fetchViolations_done r st, None)"

text \<open>
  A violations response is consistent when the pagination it reports, if any, has
  its \<open>page\<close> between 1 and its \<open>total_pages\<close>.
\<close>

fun br_consistent :: "br_event \<Rightarrow> bool" where
  "br_consistent (ViolationsDone (ViolationsOk d (Some p))) = (1 \<le> br_page p \<and> br_page p \<le> br_totalPages p)"
| "br_consistent _ = True"

fun br_requests_in_range :: "br_state \<Rightarrow> br_event list \<Rightarrow> bool" where
  "br_requests_in_range st [] = True"
| "br_requests_in_range st (e # es) =
     ((case snd (br_do st e) of
         None \<Rightarrow> True
       | Some rq \<Rightarrow> 1 \<le> vr_page rq \<and> vr_page rq \<le> br_totalPages (br_pagination st)) \<and>
      br_requests_in_range (fst (br_do st e)) es)"

section \<open>The violation store behind the violations endpoint\<close>

text \<open>
  Modelled from the spec: the server's violation store and its \<open>getPage\<close> are not
  among the repository's files (only the client that calls
  \<open>/api/rules/violations/<session>\<close> is). Section 4.4 of the spec: the store keeps
  the violation records of each session; \<open>getPage(session_id, page, page_size)\<close>
  returns \<open>{items, page, total_pages, total_items}\<close> with 1-indexed pages, the pages
  in order make up the stored violations, each page has at most \<open>page_size\<close> items,
  and the totals are those of the store at the time of the query. An unknown session
  is a \<open>NotFoundError\<close> (section 7). The spec bounds \<open>page_size\<close> by a maximum it
  does not fix (\<open>max_page_size\<close> here) and is silent on what a page below 1 or a
  page size outside \<open>1..max_page_size\<close> gives: \<open>Unspecified\<close>.
\<close>

datatype store_error = NotFoundError | Unspecified

record page_result =
  items :: "jsval list"
  page :: nat
  total_pages :: nat
  total_items :: nat

definition getPage ::
  "nat \<Rightarrow> (string \<rightharpoonup> jsval list) \<Rightarrow> string \<Rightarrow> nat \<Rightarrow> nat \<Rightarrow> store_error + page_result" where
  "getPage max_page_size store session_id pg page_size =
     (case store session_id of
        None \<Rightarrow> Inl NotFoundError
      | Some violations \<Rightarrow>
          if pg < 1 \<or> page_size < 1 \<or> page_size > max_page_size then Inl Unspecified
          else Inr \<lparr>items = take page_size (drop ((pg - 1) * page_size) violations),
                    page = pg,
                    total_pages = (length violations + page_size - 1) div page_size,
                    total_items = length violations\<rparr>)"

text \<open>
  Modelled from the spec: the REST layer is not among the repository's files either.
  Section 6: a page is answered as \<open>{items, pagination{page, page_size, total,
  total_pages}}\<close>, an error as a status that is not \<open>ok\<close>. This is the answer as
  \<open>fetchViolations\<close> receives it.
\<close>

fun violations_answer :: "nat \<Rightarrow> store_error + page_result \<Rightarrow> violations_response" where
  "violations_answer page_size (Inl e) = ViolationsNotOk"
| "violations_answer page_size (Inr r) =
     ViolationsOk (JArr (items r))
       (Some \<lparr>br_page = int (page r), br_pageSize = int page_size,
              br_total = int (total_items r), br_totalPages = int (total_pages r)\<rparr>)"

section \<open>The rule store behind the rules endpoint\<close>

text \<open>
  Modelled from the spec: the server's rule store is not among the repository's
  files (only the client that calls \<open>/api/rules\<close> is). Section 3 of the spec gives
  the fields of a rule; the enumerations are those the rule form offers
  (\<open>RULE_TYPES\<close>, the severity and operator selects).
\<close>

datatype rule_type =
    Mandatory | Threshold | Cross_column | Text_comparison | Pattern
  | Range | Kpi | Aggregate | Custom

datatype severity = Low | Medium | High | Critical

datatype operator = Lt | Gt | Le | Ge | Eq | Ne

record rule =
  rule_id :: nat
  name :: string
  description :: string
  rule_type :: rule_type
  severity :: severity
  is_active :: bool
  created_by :: string
  created_at :: nat
  source_column :: "string option"
  target_column :: "string option"
  operator :: "operator option"
  threshold_value :: "rat option"
  min_value :: "rat option"
  max_value :: "rat option"
  pattern_type :: "string option"
  custom_pattern :: "string option"
  comparison_type :: "string option"
  case_sensitive :: bool
  operator_type :: "string option"
  rule_logic :: "string option"

text \<open>
  Modelled from the spec: the rule \<open>createRule\<close> stores for a mandatory-field
  definition of a column (section 4.1: it assigns the rule id and
  \<open>is_active = true\<close>), with the defaults the rule form sends along
  (\<open>severity\<close> medium, \<open>created_by\<close> web_user, \<open>comparison_type\<close> exact,
  \<open>case_sensitive\<close> off).
\<close>

definition mandatory_rule :: "nat \<Rightarrow> string \<Rightarrow> string \<Rightarrow> rule" where
  "mandatory_rule ident nm col =
     \<lparr>rule_id = ident, name = nm, description = [], rule_type = Mandatory, severity = Medium,
      is_active = True, created_by = ''web_user'', created_at = 0,
      source_column = Some col, target_column = None, operator = None, threshold_value = None,
      min_value = None, max_value = None, pattern_type = None, custom_pattern = None,
      comparison_type = Some ''exact'', case_sensitive = False, operator_type = None,
      rule_logic = None\<rparr>"

text \<open>
  Modelled from the spec: \<open>deactivateRule\<close> and \<open>listActiveRules\<close> of the absent
  rule store, which keeps its rules in insertion order (section 4.1):
  \<open>deactivateRule(id)\<close> sets \<open>is_active = false\<close>, with no error if the rule is
  already inactive; \<open>listActiveRules()\<close> returns the rules with \<open>is_active = true\<close>
  in insertion order. An unknown rule id is a \<open>NotFoundError\<close> (section 7).
\<close>

definition deactivateRule :: "nat \<Rightarrow> rule list \<Rightarrow> store_error + rule list" where
  "deactivateRule ident store =
     (if ident \<notin> rule_id ` set store then Inl NotFoundError
      else Inr (map (\<lambda>r. if rule_id r = ident then r\<lparr>is_active := False\<rparr> else r) store))"

definition listActiveRules :: "rule list \<Rightarrow> rule list" where
  "listActiveRules store = filter is_active store"

section \<open>Properties\<close>

subsection \<open>Objects\<close>

lemma get_spread_set:
  "get (spread_set (JObj kvs) k v) k' = (if k' = k then v else get (JObj kvs) k')"
  by (simp add: spread_set_def update_conv')

lemma get_spread_set_any:
  "get (spread_set ob k v) k' = (if k' = k then v else get (JObj (own_props ob)) k')"
  by (simp add: spread_set_def update_conv')

lemma map_of_filter_snd:
  "distinct (map fst kvs) \<Longrightarrow>
   map_of (filter (\<lambda>kv. P (snd kv)) kvs) k =
     (case map_of kvs k of None \<Rightarrow> None | Some v \<Rightarrow> if P v then Some v else None)"
proof (induction kvs)
  case Nil
  then show ?case by simp
next
  case (Cons a kvs)
  then show ?case
    by (cases a) (auto split: option.splits simp: map_of_eq_None_iff image_iff dest: map_of_SomeD)
qed

lemma get_drop_undefined:
  "distinct (map fst kvs) \<Longrightarrow>
   get (JObj (filter (\<lambda>kv. snd kv \<noteq> JUndefined) kvs)) k = get (JObj kvs) k"
  using map_of_filter_snd [where P = "\<lambda>v. v \<noteq> JUndefined" and kvs = kvs and k = k]
  by (auto split: option.splits)

subsection \<open>The rule form: case sensitivity\<close>

lemma payload_case_sensitive:
  "get (handleSaveRule_payload parseFloat newRule) ''case_sensitive'' =
     (if get newRule ''is_case_sensitive'' = JStr ''y'' then JNum 1 else JNum 0)"
  unfolding handleSaveRule_payload_def
  by (subst get_drop_undefined) simp_all

lemma get_fold_setField:
  "k \<notin> fst ` set edits \<Longrightarrow> get (foldl setField (JObj kvs) edits) k = get (JObj kvs) k"
proof (induction edits arbitrary: kvs)
  case Nil
  then show ?case by simp
next
  case (Cons e edits)
  obtain kvs' where s: "setField (JObj kvs) e = JObj kvs'"
    by (auto simp: setField_def spread_set_def)
  have "get (JObj kvs') k = get (JObj kvs) k"
    using Cons.prems s[symmetric] by (simp add: setField_def get_spread_set)
  with Cons s show ?case by simp
qed

text \<open>
  C7. A rule form on which the case-sensitivity select was never touched (any
  sequence of edits of other fields, starting from \<open>INITIAL_RULE_STATE\<close>, whose
  \<open>is_case_sensitive\<close> is \<open>'n'\<close>) is saved with \<open>case_sensitive = 0\<close>; and for every
  form state, the payload's \<open>case_sensitive\<close> is 1 exactly when
  \<open>is_case_sensitive\<close> is \<open>'y'\<close>, and 0 otherwise.
\<close>

theorem case_sensitive_default_off:
  "get INITIAL_RULE_STATE ''is_case_sensitive'' = JStr ''n'' \<and>
   (''is_case_sensitive'' \<notin> fst ` set edits \<longrightarrow>
      get (handleSaveRule_payload parseFloat (foldl setField INITIAL_RULE_STATE edits))
        ''case_sensitive'' = JNum 0) \<and>
   (get (handleSaveRule_payload parseFloat newRule) ''case_sensitive'' = JNum 1
      \<longleftrightarrow> get newRule ''is_case_sensitive'' = JStr ''y'') \<and>
   (get (handleSaveRule_payload parseFloat newRule) ''case_sensitive'' = JNum 0
      \<longleftrightarrow> get newRule ''is_case_sensitive'' \<noteq> JStr ''y'')"
proof -
  have init: "get INITIAL_RULE_STATE ''is_case_sensitive'' = JStr ''n''"
    by (simp add: INITIAL_RULE_STATE_def)
  have "get (foldl setField INITIAL_RULE_STATE edits) ''is_case_sensitive'' = JStr ''n''"
    if "''is_case_sensitive'' \<notin> fst ` set edits"
    using get_fold_setField [OF that] init by (simp add: INITIAL_RULE_STATE_def)
  then show ?thesis
    using init by (simp add: payload_case_sensitive)
qed

theorem case_sensitive_default_off_witness:
  "''is_case_sensitive'' \<notin> fst ` set [(''rule_type'', JStr ''text_comparison''), (''source_column'', JStr ''a'')] \<and>
   get (handleSaveRule_payload (\<lambda>v. JNaN)
          (foldl setField INITIAL_RULE_STATE
             [(''rule_type'', JStr ''text_comparison''), (''source_column'', JStr ''a'')]))
     ''case_sensitive'' = JNum 0 \<and>
   get (handleSaveRule_payload (\<lambda>v. JNaN) (setField INITIAL_RULE_STATE (''is_case_sensitive'', JStr ''y'')))
     ''case_sensitive'' = JNum 1"
proof -
  have y: "get (setField INITIAL_RULE_STATE (''is_case_sensitive'', JStr ''y'')) ''is_case_sensitive'' = JStr ''y''"
    by (simp add: INITIAL_RULE_STATE_def setField_def get_spread_set)
  show ?thesis
    using case_sensitive_default_off
      [of "[(''rule_type'', JStr ''text_comparison''), (''source_column'', JStr ''a'')]"
          "\<lambda>v. JNaN" "setField INITIAL_RULE_STATE (''is_case_sensitive'', JStr ''y'')"]
      y
    by simp
qed

subsection \<open>Uploads: the path that reaches the analysis request\<close>

lemma replace_backslashes_props:
  "length (replace_backslashes p) = length p \<and>
   (\<forall>i<length p. replace_backslashes p ! i = (if p ! i = CHR 0x5C then CHR ''/'' else p ! i)) \<and>
   CHR 0x5C \<notin> set (replace_backslashes p)"
  by (auto simp: replace_backslashes_def)

lemma upload_no_file: "\<not> truthy file \<Longrightarrow> upload file isTarget r = ([], Inr JNull)"
  by (simp add: upload_def)

lemma upload_ok:
  "truthy file \<Longrightarrow> j \<noteq> JNull \<Longrightarrow> j \<noteq> JUndefined \<Longrightarrow>
   upload file isTarget (Response True (Some j)) =
     ([(if isTarget then ''targetFileName'' else ''sourceFileName'', get j ''filename'')],
      forward_slashes (get j ''full_path''))"
  by (cases j) (simp_all add: upload_def bindE_def)

lemma forward_slashes_falsy: "\<not> truthy v \<Longrightarrow> forward_slashes v = Inr JNull"
  by (cases v) auto

lemma single_forward:
  assumes "upload (get formData ''selectedFile'') False rS = (u1, Inr sPath)"
    and "upload (get formData ''targetFile'') True rT = (u2, Inr tPath)"
    and "check_type \<noteq> ''BUSINESS_RULES_ENGINE''" and "check_type \<noteq> ''SOURCE_TARGET_COMPARISON''"
    and "get formData ''selectedSource'' = JStr src" and "src \<noteq> ''Database''"
  shows "\<exists>payload. handleRunAnalysis_request parseInt check_type formData rS rT =
           (u1 @ u2, Inr (Post (get API_ENDPOINTS check_type) payload)) \<and>
         get payload ''file_path'' = sPath"
  using assms
  by (simp add: handleRunAnalysis_request_def single_payload_def bindE_def)

lemma comparison_side_file:
  "src \<noteq> ''Database'' \<Longrightarrow>
   comparison_side parseInt port (JStr src) conn pathKey path =
     Inr (JObj [(''source_type'', JStr (map lower_char src)), (pathKey, path)])"
  by (simp add: comparison_side_def bindE_def)

lemma comparison_forward:
  assumes "upload (get formData ''selectedFile'') False rS = (u1, Inr sPath)"
    and "upload (get formData ''targetFile'') True rT = (u2, Inr tPath)"
    and "handleRunAnalysis_request parseInt ''SOURCE_TARGET_COMPARISON'' formData rS rT = (u, Inr step)"
  shows "\<exists>payload. step = Post (JStr ''/api/compare'') payload \<and>
         (\<forall>src. get formData ''selectedSource'' = JStr src \<and> src \<noteq> ''Database'' \<longrightarrow>
            get (get payload ''source'') ''source_file_path'' = sPath) \<and>
         (\<forall>src. get formData ''targetSource'' = JStr src \<and> src \<noteq> ''Database'' \<longrightarrow>
            get (get payload ''target'') ''target_file_path'' = tPath)"
  using assms
  apply (simp add: handleRunAnalysis_request_def comparison_payload_def API_ENDPOINTS_def)
  apply (auto simp: bindE_def comparison_side_file split: sum.splits)
  done

lemma comparison_files_forward:
  assumes "upload (get formData ''selectedFile'') False rS = (u1, Inr sPath)"
    and "upload (get formData ''targetFile'') True rT = (u2, Inr tPath)"
    and "get formData ''selectedSource'' = JStr s" and "s \<noteq> ''Database''"
    and "get formData ''targetSource'' = JStr t" and "t \<noteq> ''Database''"
  shows "\<exists>payload. handleRunAnalysis_request parseInt ''SOURCE_TARGET_COMPARISON'' formData rS rT =
           (u1 @ u2, Inr (Post (JStr ''/api/compare'') payload)) \<and>
         get (get payload ''source'') ''source_file_path'' = sPath \<and>
         get (get payload ''target'') ''target_file_path'' = tPath"
  using assms
  by (simp add: handleRunAnalysis_request_def comparison_payload_def API_ENDPOINTS_def
      bindE_def comparison_side_file)

lemma business_forward:
  assumes "upload (get formData ''selectedFile'') False rS = (u1, Inr sPath)"
    and "upload (get formData ''targetFile'') True rT = (u2, Inr tPath)"
  shows "handleRunAnalysis_request parseInt ''BUSINESS_RULES_ENGINE'' formData rS rT =
           (u1 @ u2, Inr (Workflow (JObj
                       [(''isReadyForWorkflow'', JBool True),
                        (''filepath'', sPath),
                        (''sourceType'', get formData ''selectedSource''),
                        (''dbConnection'', get formData ''dbConnection'')])))"
  using assms
  by (simp add: handleRunAnalysis_request_def)

lemma execute_payload_file_path:
  assumes "handleExecuteRules_payload parseInt analysisResult formData ids = Inr payload"
  shows "get payload ''file_path'' = js_or (get analysisResult ''filepath'') (JStr []) \<and>
         get (get payload ''source'') ''file_path'' = js_or (get analysisResult ''filepath'') (JStr [])"
  using assms
  by (auto simp: handleExecuteRules_payload_def bindE_def Let_def split: sum.splits if_splits)

lemma execute_payload_file_source:
  assumes "get formData ''selectedSource'' = JStr s" and "map lower_char s \<noteq> ''database''"
  shows "\<exists>payload. handleExecuteRules_payload parseInt analysisResult formData ids = Inr payload"
  using assms
  by (auto simp: handleExecuteRules_payload_def bindE_def Let_def js_or_def)

lemma upload_patch_keys:
  "upload file isTarget r = (u, x) \<Longrightarrow> fst ` set u \<subseteq> {''sourceFileName'', ''targetFileName''}"
  by (auto simp: upload_def split: if_splits http_response.splits sum.splits prod.splits)

lemma get_updateFormData:
  "k \<notin> fst ` set patch \<Longrightarrow> get (updateFormData (JObj kvs) patch) k = get (JObj kvs) k"
proof (induction patch arbitrary: kvs)
  case Nil
  then show ?case by (simp add: updateFormData_def)
next
  case (Cons e patch)
  have "get (updateFormData (JObj (AList.update (fst e) (snd e) kvs)) patch) k
          = get (JObj (AList.update (fst e) (snd e) kvs)) k"
    using Cons.prems by (intro Cons.IH) simp
  moreover have "get (JObj (AList.update (fst e) (snd e) kvs)) k = get (JObj kvs) k"
    using Cons.prems by (simp add: update_conv')
  ultimately show ?case
    by (simp add: updateFormData_def spread_set_def)
qed

lemma business_execute_forward:
  assumes sP: "upload (get formData ''selectedFile'') False rS = (u1, Inr sPath)"
    and tP: "upload (get formData ''targetFile'') True rT = (u2, Inr tPath)"
  shows "\<exists>res. handleRunAnalysis_request parseInt ''BUSINESS_RULES_ENGINE'' formData rS rT =
             (u1 @ u2, Inr (Workflow res)) \<and>
           get res ''filepath'' = sPath \<and>
           (\<forall>fd payload. handleExecuteRules_payload parseInt res fd ids = Inr payload \<longrightarrow>
              get payload ''file_path'' = js_or sPath (JStr []) \<and>
              get (get payload ''source'') ''file_path'' = js_or sPath (JStr [])) \<and>
           (\<forall>s. get formData ''selectedSource'' = JStr s \<and> map lower_char s \<noteq> ''database'' \<longrightarrow>
              (\<exists>payload. handleExecuteRules_payload parseInt res
                   (updateFormData formData (u1 @ u2)) ids = Inr payload))"
proof -
  let ?res = "JObj [(''isReadyForWorkflow'', JBool True), (''filepath'', sPath),
                    (''sourceType'', get formData ''selectedSource''),
                    (''dbConnection'', get formData ''dbConnection'')]"
  have run: "handleRunAnalysis_request parseInt ''BUSINESS_RULES_ENGINE'' formData rS rT =
             (u1 @ u2, Inr (Workflow ?res))"
    by (rule business_forward [OF sP tP])
  have fp: "get ?res ''filepath'' = sPath"
    by simp
  have fwd: "get payload ''file_path'' = js_or sPath (JStr []) \<and>
             get (get payload ''source'') ''file_path'' = js_or sPath (JStr [])"
    if "handleExecuteRules_payload parseInt ?res fd ids = Inr payload" for fd payload
    using execute_payload_file_path [OF that] fp by simp
  have ex: "\<exists>payload. handleExecuteRules_payload parseInt ?res
                   (updateFormData formData (u1 @ u2)) ids = Inr payload"
    if s: "get formData ''selectedSource'' = JStr s" "map lower_char s \<noteq> ''database''" for s
  proof -
    obtain kvs where fd: "formData = JObj kvs"
      using s(1) by (cases formData) simp_all
    have "fst ` set (u1 @ u2) \<subseteq> {''sourceFileName'', ''targetFileName''}"
      using upload_patch_keys [OF sP] upload_patch_keys [OF tP] by auto
    then have "''selectedSource'' \<notin> fst ` set (u1 @ u2)"
      by auto
    then have "get (updateFormData formData (u1 @ u2)) ''selectedSource'' = JStr s"
      using s(1) fd get_updateFormData [of "''selectedSource''" "u1 @ u2" kvs] by simp
    then show ?thesis
      using s(2) by (rule execute_payload_file_source)
  qed
  show ?thesis
    using run fp fwd ex by blast
qed

text \<open>
  C9, as amended. What \<open>upload\<close> returns, and where it goes. Without a file the
  helper returns \<open>null\<close> and sends nothing. With a file and an \<open>ok\<close> answer whose
  body is \<open>j\<close> (any JSON value but \<open>null\<close>), it returns \<open>null\<close> when
  \<open>j.full_path\<close> is missing or falsy (the empty string included), and when
  \<open>j.full_path\<close> is a non-empty string \<open>p\<close> it returns \<open>p\<close> with every backslash
  turned into a forward slash and every other character kept. The two results,
  \<open>sPath\<close> and \<open>tPath\<close>, are what the analysis request carries for a side that is
  not a database: \<open>file_path\<close> of a single-source or advanced check, which is always
  sent for a file source; \<open>source.source_file_path\<close> and
  \<open>target.target_file_path\<close> of a comparison, which is always sent for two file
  sides. In the business-rules flow \<open>sPath\<close> becomes the \<open>filepath\<close> of the analysis
  result, and the rule execution request carries it as \<open>file_path\<close> and
  \<open>source.file_path\<close> with \<open>null\<close> replaced by the empty string; for a source that
  is not a database that request is always built.
\<close>

theorem upload_path_forward_slashes:
  assumes "upload (get formData ''selectedFile'') False rS = (u1, Inr sPath)"
    and "upload (get formData ''targetFile'') True rT = (u2, Inr tPath)"
  shows
  "(\<not> truthy chosen \<longrightarrow> upload chosen isTarget r = ([], Inr JNull)) \<and>
   (truthy chosen \<and> j \<noteq> JNull \<and> j \<noteq> JUndefined \<and> \<not> truthy (get j ''full_path'') \<longrightarrow>
      snd (upload chosen isTarget (Response True (Some j))) = Inr JNull) \<and>
   (truthy chosen \<and> j \<noteq> JNull \<and> j \<noteq> JUndefined \<and> get j ''full_path'' = JStr p \<and> p \<noteq> [] \<longrightarrow>
      (\<exists>q. snd (upload chosen isTarget (Response True (Some j))) = Inr (JStr q) \<and>
           length q = length p \<and>
           (\<forall>i<length p. q ! i = (if p ! i = CHR 0x5C then CHR ''/'' else p ! i)) \<and>
           CHR 0x5C \<notin> set q)) \<and>
   (check_type \<noteq> ''BUSINESS_RULES_ENGINE'' \<and> check_type \<noteq> ''SOURCE_TARGET_COMPARISON'' \<and>
    get formData ''selectedSource'' = JStr src \<and> src \<noteq> ''Database'' \<longrightarrow>
      (\<exists>payload. handleRunAnalysis_request parseInt check_type formData rS rT =
           (u1 @ u2, Inr (Post (get API_ENDPOINTS check_type) payload)) \<and>
         get payload ''file_path'' = sPath)) \<and>
   (get formData ''selectedSource'' = JStr src \<and> src \<noteq> ''Database'' \<and>
    get formData ''targetSource'' = JStr tgt \<and> tgt \<noteq> ''Database'' \<longrightarrow>
      (\<exists>payload. handleRunAnalysis_request parseInt ''SOURCE_TARGET_COMPARISON'' formData rS rT =
           (u1 @ u2, Inr (Post (JStr ''/api/compare'') payload)) \<and>
         get (get payload ''source'') ''source_file_path'' = sPath \<and>
         get (get payload ''target'') ''target_file_path'' = tPath)) \<and>
   (handleRunAnalysis_request parseInt ''SOURCE_TARGET_COMPARISON'' formData rS rT = (u, Inr step) \<longrightarrow>
      (\<exists>payload. step = Post (JStr ''/api/compare'') payload \<and>
         (\<forall>s. get formData ''selectedSource'' = JStr s \<and> s \<noteq> ''Database'' \<longrightarrow>
            get (get payload ''source'') ''source_file_path'' = sPath) \<and>
         (\<forall>s. get formData ''targetSource'' = JStr s \<and> s \<noteq> ''Database'' \<longrightarrow>
            get (get payload ''target'') ''target_file_path'' = tPath))) \<and>
   (\<exists>res. handleRunAnalysis_request parseInt ''BUSINESS_RULES_ENGINE'' formData rS rT =
             (u1 @ u2, Inr (Workflow res)) \<and>
          get res ''filepath'' = sPath \<and>
          (\<forall>fd payload. handleExecuteRules_payload parseInt res fd ids = Inr payload \<longrightarrow>
              get payload ''file_path'' = js_or sPath (JStr []) \<and>
              get (get payload ''source'') ''file_path'' = js_or sPath (JStr [])) \<and>
          (\<forall>s. get formData ''selectedSource'' = JStr s \<and> map lower_char s \<noteq> ''database'' \<longrightarrow>
              (\<exists>payload. handleExecuteRules_payload parseInt res
                   (updateFormData formData (u1 @ u2)) ids = Inr payload)))"
proof (intro conjI impI)
  show "upload chosen isTarget r = ([], Inr JNull)" if "\<not> truthy chosen"
    using that by (rule upload_no_file)
next
  assume "truthy chosen \<and> j \<noteq> JNull \<and> j \<noteq> JUndefined \<and> \<not> truthy (get j ''full_path'')"
  then show "snd (upload chosen isTarget (Response True (Some j))) = Inr JNull"
    by (simp add: upload_ok forward_slashes_falsy)
next
  assume a: "truthy chosen \<and> j \<noteq> JNull \<and> j \<noteq> JUndefined \<and> get j ''full_path'' = JStr p \<and> p \<noteq> []"
  then have "snd (upload chosen isTarget (Response True (Some j))) = Inr (JStr (replace_backslashes p))"
    by (simp add: upload_ok)
  then show "\<exists>q. snd (upload chosen isTarget (Response True (Some j))) = Inr (JStr q) \<and>
           length q = length p \<and>
           (\<forall>i<length p. q ! i = (if p ! i = CHR 0x5C then CHR ''/'' else p ! i)) \<and>
           CHR 0x5C \<notin> set q"
    using replace_backslashes_props [of p] by blast
next
  assume "check_type \<noteq> ''BUSINESS_RULES_ENGINE'' \<and> check_type \<noteq> ''SOURCE_TARGET_COMPARISON'' \<and>
    get formData ''selectedSource'' = JStr src \<and> src \<noteq> ''Database''"
  then show "\<exists>payload. handleRunAnalysis_request parseInt check_type formData rS rT =
           (u1 @ u2, Inr (Post (get API_ENDPOINTS check_type) payload)) \<and>
         get payload ''file_path'' = sPath"
    using single_forward [OF assms] by blast
next
  assume "get formData ''selectedSource'' = JStr src \<and> src \<noteq> ''Database'' \<and>
    get formData ''targetSource'' = JStr tgt \<and> tgt \<noteq> ''Database''"
  then show "\<exists>payload. handleRunAnalysis_request parseInt ''SOURCE_TARGET_COMPARISON'' formData rS rT =
           (u1 @ u2, Inr (Post (JStr ''/api/compare'') payload)) \<and>
         get (get payload ''source'') ''source_file_path'' = sPath \<and>
         get (get payload ''target'') ''target_file_path'' = tPath"
    using comparison_files_forward [OF assms] by blast
next
  assume "handleRunAnalysis_request parseInt ''SOURCE_TARGET_COMPARISON'' formData rS rT = (u, Inr step)"
  then show "\<exists>payload. step = Post (JStr ''/api/compare'') payload \<and>
         (\<forall>s. get formData ''selectedSource'' = JStr s \<and> s \<noteq> ''Database'' \<longrightarrow>
            get (get payload ''source'') ''source_file_path'' = sPath) \<and>
         (\<forall>s. get formData ''targetSource'' = JStr s \<and> s \<noteq> ''Database'' \<longrightarrow>
            get (get payload ''target'') ''target_file_path'' = tPath)"
    using comparison_forward [OF assms] by blast
next
  show "\<exists>res. handleRunAnalysis_request parseInt ''BUSINESS_RULES_ENGINE'' formData rS rT =
             (u1 @ u2, Inr (Workflow res)) \<and>
          get res ''filepath'' = sPath \<and>
          (\<forall>fd payload. handleExecuteRules_payload parseInt res fd ids = Inr payload \<longrightarrow>
              get payload ''file_path'' = js_or sPath (JStr []) \<and>
              get (get payload ''source'') ''file_path'' = js_or sPath (JStr [])) \<and>
          (\<forall>s. get formData ''selectedSource'' = JStr s \<and> map lower_char s \<noteq> ''database'' \<longrightarrow>
              (\<exists>payload. handleExecuteRules_payload parseInt res
                   (updateFormData formData (u1 @ u2)) ids = Inr payload))"
    by (rule business_execute_forward [OF assms])
qed

theorem upload_path_forward_slashes_witness:
  "upload (JObj [(''name'', JStr ''a.csv'')]) False
     (Response True (Some (JObj [(''filename'', JStr ''a.csv''),
        (''full_path'', JStr [CHR ''C'', CHR '':'', CHR 0x5C, CHR ''t'', CHR 0x5C, CHR ''a''])])))
     = ([(''sourceFileName'', JStr ''a.csv'')], Inr (JStr ''C:/t/a'')) \<and>
   upload JUndefined True NetworkFailure = ([], Inr JNull) \<and>
   snd (upload (JObj [(''name'', JStr ''b.xlsx'')]) True
     (Response True (Some (JObj [(''filename'', JStr ''b.xlsx'')])))) = Inr JNull \<and>
   (\<exists>payload.
      handleRunAnalysis_request (\<lambda>v. JNaN) ''SINGLE_SOURCE_ANALYSIS''
        (JObj [(''selectedSource'', JStr ''CSV''), (''selectedFile'', JObj [(''name'', JStr ''a.csv'')]),
               (''targetSource'', JStr ''Excel''), (''targetFile'', JObj [(''name'', JStr ''b.xlsx'')])])
        (Response True (Some (JObj [(''filename'', JStr ''a.csv''),
           (''full_path'', JStr [CHR ''C'', CHR '':'', CHR 0x5C, CHR ''t'', CHR 0x5C, CHR ''a''])])))
        (Response True (Some (JObj [(''filename'', JStr ''b.xlsx''),
           (''full_path'', JStr [CHR ''D'', CHR '':'', CHR 0x5C, CHR ''b''])])))
      = ([(''sourceFileName'', JStr ''a.csv''), (''targetFileName'', JStr ''b.xlsx'')],
         Inr (Post (JStr ''/api/check-single'') payload)) \<and>
      get payload ''file_path'' = JStr ''C:/t/a'') \<and>
   (\<exists>payload.
      handleRunAnalysis_request (\<lambda>v. JNaN) ''SOURCE_TARGET_COMPARISON''
        (JObj [(''selectedSource'', JStr ''CSV''), (''selectedFile'', JObj [(''name'', JStr ''a.csv'')]),
               (''targetSource'', JStr ''Excel''), (''targetFile'', JObj [(''name'', JStr ''b.xlsx'')])])
        (Response True (Some (JObj [(''filename'', JStr ''a.csv''),
           (''full_path'', JStr [CHR ''C'', CHR '':'', CHR 0x5C, CHR ''t'', CHR 0x5C, CHR ''a''])])))
        (Response True (Some (JObj [(''filename'', JStr ''b.xlsx''),
           (''full_path'', JStr [CHR ''D'', CHR '':'', CHR 0x5C, CHR ''b''])])))
      = ([(''sourceFileName'', JStr ''a.csv''), (''targetFileName'', JStr ''b.xlsx'')],
         Inr (Post (JStr ''/api/compare'') payload)) \<and>
      get (get payload ''source'') ''source_file_path'' = JStr ''C:/t/a'' \<and>
      get (get payload ''target'') ''target_file_path'' = JStr ''D:/b'') \<and>
   (\<exists>res payload.
      handleRunAnalysis_request (\<lambda>v. JNaN) ''BUSINESS_RULES_ENGINE''
        (JObj [(''selectedSource'', JStr ''CSV''), (''selectedFile'', JObj [(''name'', JStr ''a.csv'')]),
               (''targetSource'', JStr ''Excel''), (''targetFile'', JObj [(''name'', JStr ''b.xlsx'')])])
        (Response True (Some (JObj [(''filename'', JStr ''a.csv''),
           (''full_path'', JStr [CHR ''C'', CHR '':'', CHR 0x5C, CHR ''t'', CHR 0x5C, CHR ''a''])])))
        (Response True (Some (JObj [(''filename'', JStr ''b.xlsx''),
           (''full_path'', JStr [CHR ''D'', CHR '':'', CHR 0x5C, CHR ''b''])])))
      = ([(''sourceFileName'', JStr ''a.csv''), (''targetFileName'', JStr ''b.xlsx'')],
         Inr (Workflow res)) \<and>
      handleExecuteRules_payload (\<lambda>v. JNaN) res
        (updateFormData
           (JObj [(''selectedSource'', JStr ''CSV''), (''selectedFile'', JObj [(''name'', JStr ''a.csv'')]),
                  (''targetSource'', JStr ''Excel''), (''targetFile'', JObj [(''name'', JStr ''b.xlsx'')])])
           [(''sourceFileName'', JStr ''a.csv''), (''targetFileName'', JStr ''b.xlsx'')])
        [JNum 1] = Inr payload \<and>
      get payload ''file_path'' = JStr ''C:/t/a'' \<and>
      get (get payload ''source'') ''file_path'' = JStr ''C:/t/a'')"
proof -
  let ?fileS = "JObj [(''name'', JStr ''a.csv'')]"
  let ?fileT = "JObj [(''name'', JStr ''b.xlsx'')]"
  let ?form = "JObj [(''selectedSource'', JStr ''CSV''), (''selectedFile'', ?fileS),
               (''targetSource'', JStr ''Excel''), (''targetFile'', ?fileT)]"
  let ?rS = "Response True (Some (JObj [(''filename'', JStr ''a.csv''),
        (''full_path'', JStr [CHR ''C'', CHR '':'', CHR 0x5C, CHR ''t'', CHR 0x5C, CHR ''a''])]))"
  let ?rT = "Response True (Some (JObj [(''filename'', JStr ''b.xlsx''),
           (''full_path'', JStr [CHR ''D'', CHR '':'', CHR 0x5C, CHR ''b''])]))"
  have s: "upload (get ?form ''selectedFile'') False ?rS
             = ([(''sourceFileName'', JStr ''a.csv'')], Inr (JStr ''C:/t/a''))"
    by (simp add: upload_def bindE_def replace_backslashes_def)
  have t: "upload (get ?form ''targetFile'') True ?rT
             = ([(''targetFileName'', JStr ''b.xlsx'')], Inr (JStr ''D:/b''))"
    by (simp add: upload_def bindE_def replace_backslashes_def)
  have e: "get API_ENDPOINTS ''SINGLE_SOURCE_ANALYSIS'' = JStr ''/api/check-single''"
    by (simp add: API_ENDPOINTS_def)
  have lower: "map lower_char ''CSV'' \<noteq> ''database''"
    by simp
  note thm1 = upload_path_forward_slashes [OF s t,
        where chosen = JUndefined and isTarget = True and r = NetworkFailure
          and j = "JObj [(''filename'', JStr ''b.xlsx'')]" and p = "''x''"
          and check_type = "''SINGLE_SOURCE_ANALYSIS''" and src = "''CSV''" and tgt = "''Excel''"
          and parseInt = "\<lambda>v. JNaN" and ids = "[JNum 1]"]
  note thm2 = upload_path_forward_slashes [OF s t,
        where chosen = ?fileT and isTarget = True
          and j = "JObj [(''filename'', JStr ''b.xlsx'')]"]
  have up: "upload JUndefined True NetworkFailure = ([], Inr JNull)"
    using thm1 by simp
  have nofp: "snd (upload ?fileT True (Response True (Some (JObj [(''filename'', JStr ''b.xlsx'')])))) = Inr JNull"
    using thm2 by simp
  have single: "\<exists>payload.
      handleRunAnalysis_request (\<lambda>v. JNaN) ''SINGLE_SOURCE_ANALYSIS'' ?form ?rS ?rT
      = ([(''sourceFileName'', JStr ''a.csv''), (''targetFileName'', JStr ''b.xlsx'')],
         Inr (Post (JStr ''/api/check-single'') payload)) \<and>
      get payload ''file_path'' = JStr ''C:/t/a''"
    using thm1 e by simp
  have cmp: "\<exists>payload.
      handleRunAnalysis_request (\<lambda>v. JNaN) ''SOURCE_TARGET_COMPARISON'' ?form ?rS ?rT
      = ([(''sourceFileName'', JStr ''a.csv''), (''targetFileName'', JStr ''b.xlsx'')],
         Inr (Post (JStr ''/api/compare'') payload)) \<and>
      get (get payload ''source'') ''source_file_path'' = JStr ''C:/t/a'' \<and>
      get (get payload ''target'') ''target_file_path'' = JStr ''D:/b''"
    using thm1 by simp
  from thm1 obtain res where res:
      "handleRunAnalysis_request (\<lambda>v. JNaN) ''BUSINESS_RULES_ENGINE'' ?form ?rS ?rT
         = ([(''sourceFileName'', JStr ''a.csv'')] @ [(''targetFileName'', JStr ''b.xlsx'')], Inr (Workflow res))"
      "\<forall>fd payload. handleExecuteRules_payload (\<lambda>v. JNaN) res fd [JNum 1] = Inr payload \<longrightarrow>
              get payload ''file_path'' = js_or (JStr ''C:/t/a'') (JStr []) \<and>
              get (get payload ''source'') ''file_path'' = js_or (JStr ''C:/t/a'') (JStr [])"
      "\<forall>s. get ?form ''selectedSource'' = JStr s \<and> map lower_char s \<noteq> ''database'' \<longrightarrow>
              (\<exists>payload. handleExecuteRules_payload (\<lambda>v. JNaN) res
                   (updateFormData ?form ([(''sourceFileName'', JStr ''a.csv'')] @ [(''targetFileName'', JStr ''b.xlsx'')]))
                   [JNum 1] = Inr payload)"
    by blast
  from res(3) lower obtain payload where payload:
      "handleExecuteRules_payload (\<lambda>v. JNaN) res
         (updateFormData ?form ([(''sourceFileName'', JStr ''a.csv'')] @ [(''targetFileName'', JStr ''b.xlsx'')]))
         [JNum 1] = Inr payload"
    by auto
  have fwd: "get payload ''file_path'' = JStr ''C:/t/a'' \<and>
             get (get payload ''source'') ''file_path'' = JStr ''C:/t/a''"
    using res(2) payload by (simp add: js_or_def)
  have biz: "\<exists>res payload.
      handleRunAnalysis_request (\<lambda>v. JNaN) ''BUSINESS_RULES_ENGINE'' ?form ?rS ?rT
      = ([(''sourceFileName'', JStr ''a.csv''), (''targetFileName'', JStr ''b.xlsx'')],
         Inr (Workflow res)) \<and>
      handleExecuteRules_payload (\<lambda>v. JNaN) res
        (updateFormData ?form
           [(''sourceFileName'', JStr ''a.csv''), (''targetFileName'', JStr ''b.xlsx'')])
        [JNum 1] = Inr payload \<and>
      get payload ''file_path'' = JStr ''C:/t/a'' \<and>
      get (get payload ''source'') ''file_path'' = JStr ''C:/t/a''"
    using res(1) payload fwd by (intro exI [of _ res] exI [of _ payload]) simp
  show ?thesis
    using s up nofp single cmp biz by (simp only: get.simps map_of.simps fst_conv snd_conv) simp
qed

lemma lower_CSV: "map lower_char ''CSV'' = ''csv''"
  by code_simp

text \<open>
  C9, the claim as stated fails in the business-rules flow: a file is uploaded, the
  server's answer has no \<open>full_path\<close>, the helper returns \<open>null\<close>, and the path the
  rule execution request forwards is the empty string, not \<open>null\<close>
  (\<open>analysisResult?.filepath || ''\<close>).
\<close>

theorem upload_path_null_counterexample:
  "handleRunAnalysis_request (\<lambda>v. JNaN) ''BUSINESS_RULES_ENGINE''
     (JObj [(''selectedSource'', JStr ''CSV''), (''selectedFile'', JObj [(''name'', JStr ''a.csv'')])])
     (Response True (Some (JObj [(''filename'', JStr ''a.csv'')])))
     NetworkFailure
   = ([(''sourceFileName'', JStr ''a.csv'')],
      Inr (Workflow (JObj [(''isReadyForWorkflow'', JBool True), (''filepath'', JNull),
                           (''sourceType'', JStr ''CSV''), (''dbConnection'', JUndefined)]))) \<and>
   handleExecuteRules_payload (\<lambda>v. JNaN)
     (JObj [(''isReadyForWorkflow'', JBool True), (''filepath'', JNull),
            (''sourceType'', JStr ''CSV''), (''dbConnection'', JUndefined)])
     (updateFormData
        (JObj [(''selectedSource'', JStr ''CSV''), (''selectedFile'', JObj [(''name'', JStr ''a.csv'')])])
        [(''sourceFileName'', JStr ''a.csv'')])
     [JNum 1]
   = Inr (JObj [(''rule_ids'', JArr [JNum 1]), (''source_type'', JStr ''csv''),
                (''file_path'', JStr []), (''mandatory_fields'', JArr []),
                (''source'', JObj [(''source_type'', JStr ''csv''), (''file_path'', JStr [])])]) \<and>
   JStr [] \<noteq> JNull"
  by (simp add: handleRunAnalysis_request_def upload_def bindE_def handleExecuteRules_payload_def
      updateFormData_def spread_set_def js_or_def lower_CSV Let_def del: list.map)

subsection \<open>Pagination: the page on display and the pages requested\<close>

lemma handlePageChange_out_of_range:
  "n < 1 \<or> n > ar_totalPages (ar_pagination st) \<Longrightarrow> handlePageChange n st = st"
  by (auto simp: handlePageChange_def)

lemma fetchData_done_in_range:
  "ar_in_range st \<Longrightarrow> ar_consistent st (FetchDone r) \<Longrightarrow> ar_in_range (fetchData_done r st)"
  by (cases "(r, st)" rule: fetchData_done.cases) (auto simp: ar_in_range_def)

lemma ar_step_in_range:
  "ar_in_range st \<Longrightarrow> ar_consistent st e \<Longrightarrow> ar_in_range (ar_step st e)"
proof (cases e)
  case (FetchDone r)
  then show "ar_in_range st \<Longrightarrow> ar_consistent st e \<Longrightarrow> ar_in_range (ar_step st e)"
    by (simp add: fetchData_done_in_range)
qed (auto simp: ar_in_range_def handleTabChange_def handlePageChange_def fetchData_start_def)

lemma ar_run_in_range:
  "ar_in_range st \<Longrightarrow> ar_consistent_run st es \<Longrightarrow>
   ar_in_range (foldl ar_step st es) \<and> ar_requests_in_range st es"
proof (induction es arbitrary: st)
  case Nil
  then show ?case by simp
next
  case (Cons e es)
  then have "ar_in_range (ar_step st e)" and "ar_consistent_run (ar_step st e) es"
    by (auto simp: ar_step_in_range)
  then have ih: "ar_in_range (foldl ar_step (ar_step st e) es) \<and> ar_requests_in_range (ar_step st e) es"
    by (rule Cons.IH)
  show ?case
    using ih Cons.prems(1) by (cases e) (auto simp: ar_in_range_def fetchData_request_def)
qed

lemma fetchViolations_start_page:
  "fetchViolations_start pg sid st = (st', Some rq) \<Longrightarrow> vr_page rq = pg"
  by (auto simp: fetchViolations_start_def Let_def split: if_splits)

lemma fetchViolations_start_pagination:
  "br_pagination (fst (fetchViolations_start pg sid st)) = br_pagination st"
  by (auto simp: fetchViolations_start_def Let_def)

lemma handleExecuteRules_response_pagination:
  "br_pagination (fst (handleExecuteRules_response res st)) = br_pagination st"
  by (auto simp: handleExecuteRules_response_def Let_def fetchViolations_start_pagination
      split: sum.splits prod.splits)

lemma handleExecuteRules_response_page:
  "handleExecuteRules_response res st = (st', Some rq) \<Longrightarrow> vr_page rq = 1"
  by (auto simp: handleExecuteRules_response_def Let_def split: sum.splits prod.splits if_splits
      dest: fetchViolations_start_page)

lemma br_do_in_range:
  "br_in_range st \<Longrightarrow> br_consistent e \<Longrightarrow> br_in_range (fst (br_do st e))"
proof (cases e)
  case (ViolationsDone r)
  then show "br_in_range st \<Longrightarrow> br_consistent e \<Longrightarrow> br_in_range (fst (br_do st e))"
    by (cases "(r, st)" rule: fetchViolations_done.cases) (auto simp: br_in_range_def split: option.splits)
qed (auto simp: br_in_range_def handleExecuteRules_response_pagination br_click_previous_def
      br_click_next_def fetchViolations_start_pagination)

lemma br_do_request_in_range:
  "br_in_range st \<Longrightarrow> br_do st e = (st', Some rq) \<Longrightarrow>
   1 \<le> vr_page rq \<and> vr_page rq \<le> br_totalPages (br_pagination st)"
proof (cases e)
  case (ExecuteDone res)
  then show "br_in_range st \<Longrightarrow> br_do st e = (st', Some rq) \<Longrightarrow> ?thesis"
    by (auto simp: br_in_range_def dest: handleExecuteRules_response_page)
next
  case ReportPrevious
  then show "br_in_range st \<Longrightarrow> br_do st e = (st', Some rq) \<Longrightarrow> ?thesis"
    by (auto simp: br_in_range_def br_click_previous_def br_prev_disabled_def
        split: if_splits dest: fetchViolations_start_page)
next
  case ReportNext
  then show "br_in_range st \<Longrightarrow> br_do st e = (st', Some rq) \<Longrightarrow> ?thesis"
    by (auto simp: br_in_range_def br_click_next_def br_next_disabled_def
        split: if_splits dest: fetchViolations_start_page)
qed auto

lemma br_run_in_range:
  "br_in_range st \<Longrightarrow> list_all br_consistent es \<Longrightarrow>
   br_in_range (foldl (\<lambda>s e. fst (br_do s e)) st es) \<and> br_requests_in_range st es"
proof (induction es arbitrary: st)
  case Nil
  then show ?case by simp
next
  case (Cons e es)
  then have "br_in_range (fst (br_do st e))" and "list_all br_consistent es"
    by (auto simp: br_do_in_range)
  then have ih: "br_in_range (foldl (\<lambda>s e. fst (br_do s e)) (fst (br_do st e)) es) \<and>
      br_requests_in_range (fst (br_do st e)) es"
    by (rule Cons.IH)
  have "case snd (br_do st e) of None \<Rightarrow> True
       | Some rq \<Rightarrow> 1 \<le> vr_page rq \<and> vr_page rq \<le> br_totalPages (br_pagination st)"
  proof (cases "br_do st e")
    case (Pair st' r)
    then show ?thesis
      using br_do_request_in_range [OF Cons.prems(1), of e st']
      by (cases r) auto
  qed
  with ih show ?case by simp
qed

text \<open>
  C10, as amended. The page-change handler of AnalysisResults leaves the state
  unchanged for a requested page below 1 or above \<open>totalPages\<close>; Previous is
  disabled on page 1 and Next on the last page, in AnalysisResults and in the report
  of BusinessResults. As long as the server's answers are consistent (in
  AnalysisResults the \<open>total_pages\<close> of an answer is not below the page on display;
  in BusinessResults the \<open>page\<close> of an answer lies between 1 and its
  \<open>total_pages\<close>), the page on display stays between 1 and \<open>totalPages\<close> through
  every sequence of tab changes, page changes, clicks, executions and answers, and
  so does the page of every request sent. Both components start in range.
\<close>

theorem page_stays_in_range:
  "(n < 1 \<or> n > ar_totalPages (ar_pagination st) \<longrightarrow> handlePageChange n st = st) \<and>
   (ar_page (ar_pagination st) = 1 \<longrightarrow> ar_prev_disabled st) \<and>
   (ar_page (ar_pagination st) \<ge> ar_totalPages (ar_pagination st) \<longrightarrow> ar_next_disabled st) \<and>
   (br_page (br_pagination bst) = 1 \<longrightarrow> br_prev_disabled bst) \<and>
   (br_page (br_pagination bst) = br_totalPages (br_pagination bst) \<longrightarrow> br_next_disabled bst) \<and>
   (ar_in_range st \<and> ar_consistent_run st es \<longrightarrow>
      ar_in_range (foldl ar_step st es) \<and> ar_requests_in_range st es) \<and>
   (br_in_range bst \<and> list_all br_consistent bes \<longrightarrow>
      br_in_range (foldl (\<lambda>s e. fst (br_do s e)) bst bes) \<and> br_requests_in_range bst bes) \<and>
   ar_in_range ar_initial \<and> br_in_range br_initial"
proof -
  have "ar_in_range ar_initial" "br_in_range br_initial"
    by (simp_all add: ar_in_range_def ar_initial_def br_in_range_def br_initial_def)
  then show ?thesis
    using handlePageChange_out_of_range [of n st] ar_run_in_range [of st es] br_run_in_range [of bst bes]
    by (simp add: ar_prev_disabled_def ar_next_disabled_def br_prev_disabled_def br_next_disabled_def)
qed

theorem page_stays_in_range_witness:
  "ar_in_range ar_initial \<and>
   ar_consistent_run ar_initial
     [FetchStart, FetchDone (ErrorsOk (JArr [JNull]) (Some (3, 120))), ClickNext, FetchStart,
      FetchDone (ErrorsOk (JArr [JNull]) (Some (3, 120))), PageChange 7, PageChange 0] \<and>
   ar_page (ar_pagination (foldl ar_step ar_initial
     [FetchStart, FetchDone (ErrorsOk (JArr [JNull]) (Some (3, 120))), ClickNext, FetchStart,
      FetchDone (ErrorsOk (JArr [JNull]) (Some (3, 120))), PageChange 7, PageChange 0])) = 2 \<and>
   ar_requests_in_range ar_initial
     [FetchStart, FetchDone (ErrorsOk (JArr [JNull]) (Some (3, 120))), ClickNext, FetchStart,
      FetchDone (ErrorsOk (JArr [JNull]) (Some (3, 120))), PageChange 7, PageChange 0] \<and>
   br_in_range br_initial \<and>
   list_all br_consistent
     [ExecuteDone (Response True (Some (JObj [(''session_id'', JStr ''s1'')]))),
      ViolationsDone (ViolationsOk (JArr [JNull])
        (Some \<lparr>br_page = 1, br_pageSize = 50, br_total = 120, br_totalPages = 3\<rparr>)),
      ReportNext, ReportPrevious] \<and>
   br_requests_in_range br_initial
     [ExecuteDone (Response True (Some (JObj [(''session_id'', JStr ''s1'')]))),
      ViolationsDone (ViolationsOk (JArr [JNull])
        (Some \<lparr>br_page = 1, br_pageSize = 50, br_total = 120, br_totalPages = 3\<rparr>)),
      ReportNext, ReportPrevious] \<and>
   snd (br_do (fst (br_do (fst (br_do br_initial
       (ExecuteDone (Response True (Some (JObj [(''session_id'', JStr ''s1'')]))))))
       (ViolationsDone (ViolationsOk (JArr [JNull])
          (Some \<lparr>br_page = 1, br_pageSize = 50, br_total = 120, br_totalPages = 3\<rparr>)))))
       ReportNext)
     = Some \<lparr>vr_session = JStr ''s1'', vr_page = 2, vr_page_size = 50\<rparr>"
proof -
  let ?es = "[FetchStart, FetchDone (ErrorsOk (JArr [JNull]) (Some (3, 120))), ClickNext, FetchStart,
      FetchDone (ErrorsOk (JArr [JNull]) (Some (3, 120))), PageChange 7, PageChange 0]"
  let ?bes = "[ExecuteDone (Response True (Some (JObj [(''session_id'', JStr ''s1'')]))),
      ViolationsDone (ViolationsOk (JArr [JNull])
        (Some \<lparr>br_page = 1, br_pageSize = 50, br_total = 120, br_totalPages = 3\<rparr>)),
      ReportNext, ReportPrevious]"
  have a: "ar_consistent_run ar_initial ?es"
    by (simp add: ar_initial_def fetchData_start_def ar_next_disabled_def handlePageChange_def)
  have p: "ar_page (ar_pagination (foldl ar_step ar_initial ?es)) = 2"
    by (simp add: ar_initial_def fetchData_start_def ar_next_disabled_def handlePageChange_def)
  have b: "list_all br_consistent ?bes"
    by simp
  have r: "snd (br_do (fst (br_do (fst (br_do br_initial
       (ExecuteDone (Response True (Some (JObj [(''session_id'', JStr ''s1'')]))))))
       (ViolationsDone (ViolationsOk (JArr [JNull])
          (Some \<lparr>br_page = 1, br_pageSize = 50, br_total = 120, br_totalPages = 3\<rparr>)))))
       ReportNext)
     = Some \<lparr>vr_session = JStr ''s1'', vr_page = 2, vr_page_size = 50\<rparr>"
    by (simp add: br_initial_def handleExecuteRules_response_def bindE_def js_or_def
        fetchViolations_start_def spread_set_def br_click_next_def br_controls_shown_def
        br_next_disabled_def Let_def)
  show ?thesis
    using page_stays_in_range [of 7 ar_initial br_initial ?es ?bes] a p b r
    by simp
qed

text \<open>
  C10, the claim as stated fails without the proviso on the server's answers:
  AnalysisResults stores whatever \<open>total_pages\<close> the server reports. After an answer
  with no errors and \<open>total_pages = 0\<close>, switching to another tab requests page 1
  while \<open>totalPages\<close> is 0, so the page requested is outside \<open>[1, totalPages]\<close>.
\<close>

theorem page_range_counterexample:
  "rq_page (fetchData_request (foldl ar_step ar_initial
      [FetchStart, FetchDone (ErrorsOk (JArr []) (Some (0, 0))), TabChange ''duplicates''])) = 1 \<and>
   ar_totalPages (ar_pagination (foldl ar_step ar_initial
      [FetchStart, FetchDone (ErrorsOk (JArr []) (Some (0, 0))), TabChange ''duplicates''])) = 0 \<and>
   \<not> ar_requests_in_range ar_initial
      [FetchStart, FetchDone (ErrorsOk (JArr []) (Some (0, 0))), TabChange ''duplicates'', FetchStart]"
  by (simp add: ar_initial_def fetchData_start_def fetchData_request_def handleTabChange_def)

subsection \<open>The violation store: pages beyond the last\<close>

lemma pages_cover: "1 \<le> n \<Longrightarrow> len \<le> ((len + n - 1) div n) * (n::nat)"
proof -
  assume n: "1 \<le> n"
  have "len + n - 1 = ((len + n - 1) div n) * n + (len + n - 1) mod n"
    by simp
  moreover have "(len + n - 1) mod n < n"
    using n by simp
  ultimately show ?thesis using n by linarith
qed

lemma getPage_beyond:
  assumes "store s = Some vs" and "1 \<le> n" and "n \<le> maxn"
    and "pg > (length vs + n - 1) div n"
  shows "getPage maxn store s pg n =
    Inr \<lparr>items = [], page = pg, total_pages = (length vs + n - 1) div n, total_items = length vs\<rparr>"
proof -
  have "(length vs + n - 1) div n \<le> pg - 1" using assms(4) by simp
  then have "((length vs + n - 1) div n) * n \<le> (pg - 1) * n"
    by (rule mult_le_mono1)
  with pages_cover [OF assms(2), of "length vs"] have "length vs \<le> (pg - 1) * n"
    by linarith
  moreover have "1 \<le> pg" using assms(4) by simp
  ultimately show ?thesis
    using assms(1-3) by (simp add: getPage_def)
qed

text \<open>
  C4. For a session the store knows and a page size within bounds, a request for a
  page beyond \<open>total_pages\<close> (the total any answered request \<open>r0\<close> of that session
  and page size reports) is answered, not refused: its item list is empty and its
  \<open>total_pages\<close> and \<open>total_items\<close> are the ones every other request reports. On
  that answer the client shows no violations, raises no error notice and keeps the
  same number of pages.
\<close>

theorem page_beyond_total_is_empty:
  assumes "store session_id = Some violations"
    and "1 \<le> page_size" and "page_size \<le> max_page_size"
    and "getPage max_page_size store session_id p0 page_size = Inr r0"
    and "pg > total_pages r0"
  shows "\<exists>r. getPage max_page_size store session_id pg page_size = Inr r \<and>
           items r = [] \<and> page r = pg \<and>
           total_pages r = total_pages r0 \<and> total_items r = total_items r0 \<and>
           get (br_executionResult (fetchViolations_done (violations_answer page_size (Inr r)) st))
             ''violations'' = JArr [] \<and>
           br_notification (fetchViolations_done (violations_answer page_size (Inr r)) st)
             = br_notification st \<and>
           br_totalPages (br_pagination (fetchViolations_done (violations_answer page_size (Inr r)) st))
             = int (total_pages r0)"
proof -
  have r0: "total_pages r0 = (length violations + page_size - 1) div page_size"
      "total_items r0 = length violations"
    using assms(1,4) by (auto simp: getPage_def split: if_splits)
  let ?r = "\<lparr>items = [], page = pg, total_pages = (length violations + page_size - 1) div page_size,
             total_items = length violations\<rparr>"
  have "getPage max_page_size store session_id pg page_size = Inr ?r"
    using getPage_beyond [where store = store and s = session_id, OF assms(1-3)] assms(5) r0 by simp
  then show ?thesis
    using r0 by (simp add: get_spread_set_any js_or_def)
qed

theorem page_beyond_total_is_empty_witness:
  "getPage 500 [''s1'' \<mapsto> [JStr ''v1'', JStr ''v2'', JStr ''v3'']] ''s1'' 1 2
     = Inr \<lparr>items = [JStr ''v1'', JStr ''v2''], page = 1, total_pages = 2, total_items = 3\<rparr> \<and>
   getPage 500 [''s1'' \<mapsto> [JStr ''v1'', JStr ''v2'', JStr ''v3'']] ''s1'' 5 2
     = Inr \<lparr>items = [], page = 5, total_pages = 2, total_items = 3\<rparr>"
proof -
  have one: "getPage 500 [''s1'' \<mapsto> [JStr ''v1'', JStr ''v2'', JStr ''v3'']] ''s1'' 1 2
     = Inr \<lparr>items = [JStr ''v1'', JStr ''v2''], page = 1, total_pages = 2, total_items = 3\<rparr>"
    by (simp add: getPage_def)
  show ?thesis
    using page_beyond_total_is_empty
      [of "[''s1'' \<mapsto> [JStr ''v1'', JStr ''v2'', JStr ''v3'']]" "''s1''"
          "[JStr ''v1'', JStr ''v2'', JStr ''v3'']" 2 500 1
          "\<lparr>items = [JStr ''v1'', JStr ''v2''], page = 1, total_pages = 2, total_items = 3\<rparr>" 5 br_initial]
      one
    by (simp add: getPage_def)
qed

subsection \<open>The rule store: deactivation\<close>

lemma deactivateRule_known:
  "ident \<in> rule_id ` set store \<Longrightarrow>
   deactivateRule ident store =
     Inr (map (\<lambda>r. if rule_id r = ident then r\<lparr>is_active := False\<rparr> else r) store)"
  by (simp add: deactivateRule_def)

lemma deactivated_ids:
  "map rule_id (map (\<lambda>r. if rule_id r = ident then r\<lparr>is_active := False\<rparr> else r) store)
     = map rule_id store"
  by (induction store) auto

lemma deactivated_twice:
  "map (\<lambda>r. if rule_id r = ident then r\<lparr>is_active := False\<rparr> else r)
     (map (\<lambda>r. if rule_id r = ident then r\<lparr>is_active := False\<rparr> else r) store)
   = map (\<lambda>r. if rule_id r = ident then r\<lparr>is_active := False\<rparr> else r) store"
  by (induction store) auto

lemma inactive_unchanged: "\<not> is_active r \<Longrightarrow> r\<lparr>is_active := False\<rparr> = r"
proof -
  assume "\<not> is_active r"
  then have "r\<lparr>is_active := False\<rparr> = r\<lparr>is_active := is_active r\<rparr>"
    by simp
  then show ?thesis by simp
qed

lemma deactivated_inactive:
  "(\<And>r. r \<in> set store \<Longrightarrow> rule_id r = ident \<Longrightarrow> \<not> is_active r) \<Longrightarrow>
   map (\<lambda>r. if rule_id r = ident then r\<lparr>is_active := False\<rparr> else r) store = store"
proof (induction store)
  case Nil
  then show ?case by simp
next
  case (Cons a store)
  have tl: "map (\<lambda>r. if rule_id r = ident then r\<lparr>is_active := False\<rparr> else r) store = store"
    by (rule Cons.IH) (rule Cons.prems, simp_all)
  have hd: "(if rule_id a = ident then a\<lparr>is_active := False\<rparr> else a) = a"
  proof (cases "rule_id a = ident")
    case True
    then have "\<not> is_active a" by (intro Cons.prems) simp_all
    then have "a\<lparr>is_active := False\<rparr> = a" by (rule inactive_unchanged)
    then show ?thesis by (simp only: if_cancel)
  next
    case False
    then show ?thesis by (simp only: if_False)
  qed
  show ?case by (simp only: list.map hd tl)
qed

lemma deactivated_known:
  "ident \<in> rule_id ` set store \<Longrightarrow>
   ident \<in> rule_id ` set (map (\<lambda>r. if rule_id r = ident then r\<lparr>is_active := False\<rparr> else r) store)"
proof -
  assume "ident \<in> rule_id ` set store"
  then have "ident \<in> set (map rule_id store)" by simp
  then have "ident \<in> set (map rule_id (map (\<lambda>r. if rule_id r = ident then r\<lparr>is_active := False\<rparr> else r) store))"
    by (simp only: deactivated_ids)
  then show ?thesis by (simp only: set_map)
qed

lemma deactivated_nth:
  "i < length store \<Longrightarrow>
   map (\<lambda>r. if rule_id r = ident then r\<lparr>is_active := False\<rparr> else r) store ! i =
     (if rule_id (store ! i) = ident then (store ! i)\<lparr>is_active := False\<rparr> else store ! i)"
  by (simp only: nth_map)

lemma deactivated_off:
  assumes "r \<in> set (map (\<lambda>r. if rule_id r = ident then r\<lparr>is_active := False\<rparr> else r) store)"
    and "rule_id r = ident"
  shows "\<not> is_active r"
proof -
  from assms(1) obtain r0 where r0: "r = (if rule_id r0 = ident then r0\<lparr>is_active := False\<rparr> else r0)"
    by (auto simp only: set_map image_iff)
  show ?thesis
  proof (cases "rule_id r0 = ident")
    case True
    with r0 have "r = r0\<lparr>is_active := False\<rparr>" by (simp only: if_True simp_thms)
    then show ?thesis by simp
  next
    case False
    with r0 have "r = r0" by (simp only: if_False simp_thms)
    with False assms(2) show ?thesis by simp
  qed
qed

lemma handleDeleteRule_response_twice:
  "handleDeleteRule_response res cid (handleDeleteRule_response res cid st)
     = handleDeleteRule_response res cid st"
  by (cases "(res, cid, st)" rule: handleDeleteRule_response.cases) auto

text \<open>
  C8. Deactivating a rule the store knows succeeds and keeps every rule record, in
  order: the only change is that the rule's \<open>is_active\<close> is false afterwards.
  Deactivating again gives the same store and no error, and a rule that was already
  inactive leaves the store as it was. On the client, deactivation is one
  \<open>PUT /api/rules/<id>\<close> whose body sets nothing but \<open>is_active\<close>, to 0, and
  handling its answer a second time changes nothing.
\<close>

theorem deactivation_is_soft_and_idempotent:
  assumes "ident \<in> rule_id ` set store"
  shows "\<exists>store'. deactivateRule ident store = Inr store' \<and>
           map rule_id store' = map rule_id store \<and>
           (\<forall>i<length store.
              store' ! i = (if rule_id (store ! i) = ident
                            then (store ! i)\<lparr>is_active := False\<rparr> else store ! i)) \<and>
           (\<forall>r\<in>set store'. rule_id r = ident \<longrightarrow> \<not> is_active r) \<and>
           deactivateRule ident store' = Inr store' \<and>
           ((\<forall>r\<in>set store. rule_id r = ident \<longrightarrow> \<not> is_active r) \<longrightarrow> store' = store) \<and>
           handleDeleteRule_request True cid =
             Some \<lparr>rr_method = ''PUT'', rr_path = ''/api/rules'', rr_id = cid,
                   rr_body = JObj [(''is_active'', JNum 0)]\<rparr> \<and>
           handleDeleteRule_response res cid (handleDeleteRule_response res cid st)
             = handleDeleteRule_response res cid st"
proof (intro exI conjI allI impI ballI)
  let ?store' = "map (\<lambda>r. if rule_id r = ident then r\<lparr>is_active := False\<rparr> else r) store"
  show "deactivateRule ident store = Inr ?store'"
    using assms by (rule deactivateRule_known)
  show "map rule_id ?store' = map rule_id store"
    by (rule deactivated_ids)
  show "?store' ! i = (if rule_id (store ! i) = ident
                            then (store ! i)\<lparr>is_active := False\<rparr> else store ! i)"
    if "i < length store" for i
    using that by (rule deactivated_nth)
  show "\<not> is_active r" if "r \<in> set ?store'" "rule_id r = ident" for r
    using that by (rule deactivated_off)
  show "deactivateRule ident ?store' = Inr ?store'"
    using deactivateRule_known [OF deactivated_known [OF assms]]
    by (simp only: deactivated_twice)
  show "?store' = store" if "\<forall>r\<in>set store. rule_id r = ident \<longrightarrow> \<not> is_active r"
    by (rule deactivated_inactive) (use that in blast)
  show "handleDeleteRule_request True cid =
             Some \<lparr>rr_method = ''PUT'', rr_path = ''/api/rules'', rr_id = cid,
                   rr_body = JObj [(''is_active'', JNum 0)]\<rparr>"
    by (simp add: handleDeleteRule_request_def)
  show "handleDeleteRule_response res cid (handleDeleteRule_response res cid st)
             = handleDeleteRule_response res cid st"
    by (rule handleDeleteRule_response_twice)
qed

lemma mandatory_rule_fields:
  "rule_id (mandatory_rule ident nm col) = ident" "is_active (mandatory_rule ident nm col)"
  by (simp_all add: mandatory_rule_def)

theorem deactivation_is_soft_and_idempotent_witness:
  "(1::nat) \<in> rule_id ` set [mandatory_rule 1 ''email set'' ''email'', mandatory_rule 2 ''name set'' ''name''] \<and>
   deactivateRule 1 [mandatory_rule 1 ''email set'' ''email'', mandatory_rule 2 ''name set'' ''name'']
     = Inr [(mandatory_rule 1 ''email set'' ''email'')\<lparr>is_active := False\<rparr>,
            mandatory_rule 2 ''name set'' ''name''] \<and>
   deactivateRule 1 [(mandatory_rule 1 ''email set'' ''email'')\<lparr>is_active := False\<rparr>,
            mandatory_rule 2 ''name set'' ''name'']
     = Inr [(mandatory_rule 1 ''email set'' ''email'')\<lparr>is_active := False\<rparr>,
            mandatory_rule 2 ''name set'' ''name''] \<and>
   listActiveRules [(mandatory_rule 1 ''email set'' ''email'')\<lparr>is_active := False\<rparr>,
            mandatory_rule 2 ''name set'' ''name'']
     = [mandatory_rule 2 ''name set'' ''name'']"
proof -
  have m: "(1::nat) \<in> rule_id ` set [mandatory_rule 1 ''email set'' ''email'', mandatory_rule 2 ''name set'' ''name'']"
    by (simp add: mandatory_rule_fields)
  have d: "map (\<lambda>r. if rule_id r = 1 then r\<lparr>is_active := False\<rparr> else r)
             [mandatory_rule 1 ''email set'' ''email'', mandatory_rule 2 ''name set'' ''name'']
     = [(mandatory_rule 1 ''email set'' ''email'')\<lparr>is_active := False\<rparr>,
            mandatory_rule 2 ''name set'' ''name'']"
    by (simp add: mandatory_rule_fields)
  have l: "listActiveRules [(mandatory_rule 1 ''email set'' ''email'')\<lparr>is_active := False\<rparr>,
            mandatory_rule 2 ''name set'' ''name'']
     = [mandatory_rule 2 ''name set'' ''name'']"
    by (simp add: listActiveRules_def mandatory_rule_fields)
  from deactivation_is_soft_and_idempotent [OF m, of "JNum 1" NetworkFailure br_initial]
  obtain store' where s: "deactivateRule 1 [mandatory_rule 1 ''email set'' ''email'', mandatory_rule 2 ''name set'' ''name''] = Inr store'"
    "deactivateRule 1 store' = Inr store'"
    by blast
  have "store' = [(mandatory_rule 1 ''email set'' ''email'')\<lparr>is_active := False\<rparr>,
            mandatory_rule 2 ''name set'' ''name'']"
    using s(1) d by (simp only: deactivateRule_known [OF m] sum.inject)
  with s m l show ?thesis by (simp only: simp_thms)
qed

end
